theory Spec2Isabelle
  imports
    Complex_Main
    "HOL-Library.List_Lexorder"
    "HOL-Library.Char_ord"
    "HOL-Library.Word"
begin

unbundle bit_operations_syntax

section \<open>Conventions\<close>

text \<open>
  A Python \<open>str\<close> is a sequence of Unicode code points. The model covers the code points
  U+0000 to U+00FF (ASCII and Latin-1, which holds every letter of Spanish): a \<^typ>\<open>string\<close>
  is the list of code points, one \<^typ>\<open>char\<close> each, so \<open>CHR 0xED\<close> is the letter i with
  acute accent. The order of \<^typ>\<open>string\<close> (lexicographic, by code point) is the order in
  which SQLite compares TEXT values under its default BINARY collation.

  Python's \<open>None\<close> and SQL's \<open>NULL\<close> are \<^const>\<open>None\<close> of an option type.
\<close>

subsection \<open>Decimal text of integers (\<open>str(n)\<close> and \<open>{n}\<close> inside an f-string)\<close>

definition digit_char :: "nat \<Rightarrow> char" where
  "digit_char d = ''0123456789'' ! d"

function str_nat :: "nat \<Rightarrow> string" where
  "str_nat n = (if n < 10 then [digit_char n] else str_nat (n div 10) @ [digit_char (n mod 10)])"
  by pat_completeness auto
termination
  by (relation "measure id") auto

declare str_nat.simps [simp del]

definition str_int :: "int \<Rightarrow> string" where
  "str_int i = (if i < 0 then CHR ''-'' # str_nat (nat (- i)) else str_nat (nat i))"

subsection \<open>Python values held in caches\<close>

datatype py_value =
    PyNone
  | PyBool bool
  | PyInt int
  | PyStr string
  | PyList "py_value list"
  | PyTuple "py_value list"
  | PyDict "(string \<times> py_value) list"

section \<open>SQL conditions (three-valued logic)\<close>

text \<open>
  A condition of a \<open>WHERE\<close> clause evaluates to true, false or \<open>NULL\<close>; a comparison with a
  \<open>NULL\<close> operand is \<open>NULL\<close>, and a row is selected only when the condition is true.
\<close>

definition sql_eq :: "'a option \<Rightarrow> 'a option \<Rightarrow> bool option" where
  "sql_eq a b = (case a of None \<Rightarrow> None | Some x \<Rightarrow> (case b of None \<Rightarrow> None | Some y \<Rightarrow> Some (x = y)))"

definition sql_ne :: "'a option \<Rightarrow> 'a option \<Rightarrow> bool option" where
  "sql_ne a b = (case a of None \<Rightarrow> None | Some x \<Rightarrow> (case b of None \<Rightarrow> None | Some y \<Rightarrow> Some (x \<noteq> y)))"

definition sql_lt :: "'a::ord option \<Rightarrow> 'a option \<Rightarrow> bool option" where
  "sql_lt a b = (case a of None \<Rightarrow> None | Some x \<Rightarrow> (case b of None \<Rightarrow> None | Some y \<Rightarrow> Some (x < y)))"

definition sql_le :: "'a::ord option \<Rightarrow> 'a option \<Rightarrow> bool option" where
  "sql_le a b = (case a of None \<Rightarrow> None | Some x \<Rightarrow> (case b of None \<Rightarrow> None | Some y \<Rightarrow> Some (x \<le> y)))"

definition sql_gt :: "'a::ord option \<Rightarrow> 'a option \<Rightarrow> bool option" where
  "sql_gt a b = sql_lt b a"

definition sql_ge :: "'a::ord option \<Rightarrow> 'a option \<Rightarrow> bool option" where
  "sql_ge a b = sql_le b a"

fun sql_not :: "bool option \<Rightarrow> bool option" where
  "sql_not None = None"
| "sql_not (Some b) = Some (\<not> b)"

fun sql_and :: "bool option \<Rightarrow> bool option \<Rightarrow> bool option" where
  "sql_and (Some False) _ = Some False"
| "sql_and _ (Some False) = Some False"
| "sql_and (Some True) (Some True) = Some True"
| "sql_and _ _ = None"

fun sql_or :: "bool option \<Rightarrow> bool option \<Rightarrow> bool option" where
  "sql_or (Some True) _ = Some True"
| "sql_or _ (Some True) = Some True"
| "sql_or (Some False) (Some False) = Some False"
| "sql_or _ _ = None"

text \<open>\<open>x IN (v1, ..., vn)\<close> for a list of literals, none of them \<open>NULL\<close>.\<close>

definition sql_in :: "'a option \<Rightarrow> 'a list \<Rightarrow> bool option" where
  "sql_in a vs = (case a of None \<Rightarrow> None | Some x \<Rightarrow> Some (x \<in> set vs))"

definition sql_selected :: "bool option \<Rightarrow> bool" where
  "sql_selected c = (c = Some True)"

section \<open>Primary relational store (\<open>db/database.py\<close>)\<close>

subsection \<open>Tables\<close>

text \<open>
  A row of \<open>reservas\<close>. \<open>fecha_inicio\<close>, \<open>fecha_fin\<close> and \<open>huesped\<close> are \<open>NOT NULL\<close>; the dates
  are the ISO texts \<open>YYYY-MM-DD\<close> that the callers pass, compared as text.
\<close>

record reserva =
  r_id :: int
  r_propiedad_id :: "int option"
  r_fecha_inicio :: string
  r_fecha_fin :: string
  r_huesped :: string
  r_correo :: "string option"
  r_telefono :: "string option"
  r_estado :: "string option"
  r_precio_total :: "real option"

text \<open>A row of \<open>mensajes\<close>; \<open>respondido\<close> is the integer the \<open>BOOLEAN\<close> column stores.\<close>

record mensaje =
  m_id :: int
  m_remitente :: "string option"
  m_asunto :: "string option"
  m_cuerpo :: "string option"
  m_fecha_recibido :: "string option"
  m_respondido :: "int option"
  m_respuesta :: "string option"
  m_motivo_no_respuesta :: "string option"

subsection \<open>\<open>verificar_disponibilidad\<close>\<close>

text \<open>
  \<^verbatim>\<open>SELECT * FROM reservas
  WHERE propiedad_id = ? AND estado IN ('confirmada', 'pendiente')
  AND NOT (fecha_fin < ? OR fecha_inicio > ?)\<close>
  with the parameters \<open>(propiedad_id, fecha_inicio, fecha_fin)\<close>; the result is
  \<open>len(data) == 0\<close>.
\<close>

definition disponibilidad_where ::
  "int option \<Rightarrow> string option \<Rightarrow> string option \<Rightarrow> reserva \<Rightarrow> bool option" where
  "disponibilidad_where propiedad_id fecha_inicio fecha_fin r =
     sql_and
       (sql_and
         (sql_eq (r_propiedad_id r) propiedad_id)
         (sql_in (r_estado r) [''confirmada'', ''pendiente'']))
       (sql_not
         (sql_or
           (sql_lt (Some (r_fecha_fin r)) fecha_inicio)
           (sql_gt (Some (r_fecha_inicio r)) fecha_fin)))"

definition verificar_disponibilidad ::
  "reserva list \<Rightarrow> int option \<Rightarrow> string option \<Rightarrow> string option \<Rightarrow> bool" where
  "verificar_disponibilidad reservas propiedad_id fecha_inicio fecha_fin =
     (let data = filter (\<lambda>r. sql_selected (disponibilidad_where propiedad_id fecha_inicio fecha_fin r))
                   reservas
      in length data = 0)"

subsection \<open>\<open>marcar_mensaje_respondido\<close>\<close>

text \<open>Python truthiness of an optional text: \<open>None\<close> and \<open>""\<close> are falsy.\<close>

definition truthy_text :: "string option \<Rightarrow> bool" where
  "truthy_text v = (case v of None \<Rightarrow> False | Some s \<Rightarrow> s \<noteq> [])"

text \<open>
  \<open>UPDATE mensajes SET ... WHERE id = ?\<close> rewrites every row whose \<open>id\<close> is the parameter
  and leaves the others as they are. With a truthy \<open>motivo_no_respuesta\<close> the statement
  sets three columns, otherwise two.
\<close>

definition marcar_mensaje_respondido ::
  "mensaje list \<Rightarrow> int \<Rightarrow> string option \<Rightarrow> string option \<Rightarrow> mensaje list" where
  "marcar_mensaje_respondido mensajes mensaje_id respuesta motivo_no_respuesta =
     (if truthy_text motivo_no_respuesta then
        map (\<lambda>m. if m_id m = mensaje_id
                  then m\<lparr>m_respondido := Some 1, m_respuesta := respuesta,
                         m_motivo_no_respuesta := motivo_no_respuesta\<rparr>
                  else m) mensajes
      else
        map (\<lambda>m. if m_id m = mensaje_id
                  then m\<lparr>m_respondido := Some 1, m_respuesta := respuesta\<rparr>
                  else m) mensajes)"

section \<open>Optimized relational store (\<open>db/optimized_database.py\<close>)\<close>

subsection \<open>\<open>QueryCache\<close>\<close>

text \<open>
  The cache maps a key to \<open>(result, timestamp, ttl)\<close>. The clock (\<open>time.time()\<close>) is read
  once in \<open>get\<close> and once in \<open>set\<close>; each reading is an argument of the model.
\<close>

type_synonym query_cache = "string \<rightharpoonup> (py_value \<times> real \<times> real)"

definition default_ttl :: real where
  "default_ttl = 300"

definition cache_get :: "query_cache \<Rightarrow> real \<Rightarrow> string \<Rightarrow> py_value \<times> query_cache" where
  "cache_get cache now key =
     (case cache key of
        None \<Rightarrow> (PyNone, cache)
      | Some (result, timestamp, ttl) \<Rightarrow>
          if now - timestamp < ttl then (result, cache)
          else (PyNone, cache(key := None)))"

definition cache_set :: "query_cache \<Rightarrow> real \<Rightarrow> string \<Rightarrow> py_value \<Rightarrow> real \<Rightarrow> query_cache" where
  "cache_set cache now key v ttl =
     (let ttl' = (if ttl = 0 then default_ttl else ttl)
      in cache(key \<mapsto> (v, now, ttl')))"

subsection \<open>\<open>verificar_disponibilidad_optimized\<close>\<close>

text \<open>
  \<^verbatim>\<open>SELECT COUNT(*) as conflictos FROM reservas
  WHERE propiedad_id = ? AND estado != 'cancelada'
  AND ((fecha_inicio <= ? AND fecha_fin > ?) OR
       (fecha_inicio < ? AND fecha_fin >= ?) OR
       (fecha_inicio >= ? AND fecha_fin <= ?))\<close>
  with the parameters \<open>(propiedad_id, fecha_inicio, fecha_inicio, fecha_fin, fecha_fin,
  fecha_inicio, fecha_fin)\<close>.
\<close>

definition disponibilidad_optimized_where ::
  "int option \<Rightarrow> string option \<Rightarrow> string option \<Rightarrow> reserva \<Rightarrow> bool option" where
  "disponibilidad_optimized_where propiedad_id fecha_inicio fecha_fin r =
     sql_and
       (sql_and
         (sql_eq (r_propiedad_id r) propiedad_id)
         (sql_ne (r_estado r) (Some ''cancelada'')))
       (sql_or
         (sql_or
           (sql_and (sql_le (Some (r_fecha_inicio r)) fecha_inicio)
                    (sql_gt (Some (r_fecha_fin r)) fecha_inicio))
           (sql_and (sql_lt (Some (r_fecha_inicio r)) fecha_fin)
                    (sql_ge (Some (r_fecha_fin r)) fecha_fin)))
         (sql_and (sql_ge (Some (r_fecha_inicio r)) fecha_inicio)
                  (sql_le (Some (r_fecha_fin r)) fecha_fin)))"

definition disponibilidad_cache_key :: "int \<Rightarrow> string \<Rightarrow> string \<Rightarrow> string" where
  "disponibilidad_cache_key propiedad_id fecha_inicio fecha_fin =
     ''disponibilidad_'' @ str_int propiedad_id @ ''_'' @ fecha_inicio @ ''_'' @ fecha_fin"

text \<open>
  The function takes the typed arguments of its signature (\<open>int\<close>, \<open>str\<close>, \<open>str\<close>), the table,
  the cache and the two clock readings; it returns its result and the cache it leaves.
\<close>

definition verificar_disponibilidad_optimized ::
  "reserva list \<Rightarrow> query_cache \<Rightarrow> real \<Rightarrow> real \<Rightarrow> int \<Rightarrow> string \<Rightarrow> string
     \<Rightarrow> py_value \<times> query_cache" where
  "verificar_disponibilidad_optimized reservas cache t_get t_set propiedad_id fecha_inicio fecha_fin =
     (let cache_key = disponibilidad_cache_key propiedad_id fecha_inicio fecha_fin;
          (cached_result, cache1) = cache_get cache t_get cache_key
      in if cached_result \<noteq> PyNone then (cached_result, cache1)
         else
           let conflictos = length (filter
                 (\<lambda>r. sql_selected (disponibilidad_optimized_where
                        (Some propiedad_id) (Some fecha_inicio) (Some fecha_fin) r)) reservas);
               disponible = (conflictos = 0)
           in (PyBool disponible, cache_set cache1 t_set cache_key (PyBool disponible) 300))"


section \<open>Python strings\<close>

text \<open>
  \<open>str.lower()\<close>, \<open>str.isspace()\<close> and the classes \<open>\s\<close>, \<open>\d\<close>, \<open>\w\<close> of the \<open>re\<close> module
  on the code points U+0000 to U+00FF. Lowering maps A-Z and the capital letters
  U+00C0 to U+00DE (U+00D7, the multiplication sign, apart) 32 places up; white space is
  U+0009 to U+000D, U+001C to U+0020, U+0085 and U+00A0.
\<close>

definition py_lower_char :: "char \<Rightarrow> char" where
  "py_lower_char c =
     (let n = (of_char c :: nat)
      in if (65 \<le> n \<and> n \<le> 90) \<or> (192 \<le> n \<and> n \<le> 222 \<and> n \<noteq> 215)
         then char_of (n + 32) else c)"

definition py_lower :: "string \<Rightarrow> string" where
  "py_lower s = map py_lower_char s"

definition py_isspace :: "char \<Rightarrow> bool" where
  "py_isspace c =
     (let n = (of_char c :: nat)
      in (9 \<le> n \<and> n \<le> 13) \<or> (28 \<le> n \<and> n \<le> 32) \<or> n = 133 \<or> n = 160)"

definition py_isdigit :: "char \<Rightarrow> bool" where
  "py_isdigit c = (let n = (of_char c :: nat) in 48 \<le> n \<and> n \<le> 57)"

definition py_isword :: "char \<Rightarrow> bool" where
  "py_isword c =
     (let n = (of_char c :: nat)
      in (48 \<le> n \<and> n \<le> 57) \<or> (65 \<le> n \<and> n \<le> 90) \<or> n = 95 \<or> (97 \<le> n \<and> n \<le> 122)
         \<or> n = 170 \<or> n = 178 \<or> n = 179 \<or> n = 181 \<or> n = 185 \<or> n = 186
         \<or> (188 \<le> n \<and> n \<le> 190) \<or> (192 \<le> n \<and> n \<le> 214) \<or> (216 \<le> n \<and> n \<le> 246)
         \<or> 248 \<le> n)"

definition py_strip :: "string \<Rightarrow> string" where
  "py_strip s = rev (dropWhile py_isspace (rev (dropWhile py_isspace s)))"

text \<open>\<open>needle in haystack\<close> for two strings.\<close>

fun py_contains :: "string \<Rightarrow> string \<Rightarrow> bool" where
  "py_contains needle [] = (needle = [])"
| "py_contains needle (c # cs) =
     (take (length needle) (c # cs) = needle \<or> py_contains needle cs)"

section \<open>Regular expressions (\<open>re\<close>)\<close>

text \<open>
  The patterns of the repository use literals, character classes, \<open>^\<close>, \<open>\b\<close>, groups,
  alternation, the greedy \<open>?\<close> on a sub-pattern and the greedy quantifiers \<open>*\<close>, \<open>+\<close>,
  \<open>{m,n}\<close> on a single character class. A pattern is a term of \<open>regex\<close>;
  \<open>Many cs lo hi\<close> is the class \<open>cs\<close> repeated \<open>lo\<close> to \<open>hi\<close> times (no upper bound for
  \<open>None\<close>), and \<open>Group k r\<close> is the \<open>k\<close>-th capturing group.
\<close>

datatype cset = CChar char | CRange char char | CDigit | CSpace | CWord

datatype regex =
    Eps
  | Chr char
  | CSet "cset list"
  | Bol
  | WordB
  | Seq regex regex
  | Alt regex regex
  | Opt regex
  | Many "cset list" nat "nat option"
  | Group nat regex

fun in_cset :: "char \<Rightarrow> cset \<Rightarrow> bool" where
  "in_cset x (CChar c) = (x = c)"
| "in_cset x (CRange a b) = (a \<le> x \<and> x \<le> b)"
| "in_cset x CDigit = py_isdigit x"
| "in_cset x CSpace = py_isspace x"
| "in_cset x CWord = py_isword x"

definition in_csets :: "cset list \<Rightarrow> char \<Rightarrow> bool" where
  "in_csets cs x = list_ex (in_cset x) cs"

text \<open>The literal text \<open>w\<close> as a pattern.\<close>

fun lits :: "string \<Rightarrow> regex" where
  "lits [] = Eps"
| "lits [c] = Chr c"
| "lits (c # cs) = Seq (Chr c) (lits cs)"

text \<open>
  A matcher state is the character before the current position (\<open>None\<close> at the start of
  the string), the text still to read, and the groups captured so far. \<open>ms\<close> lists the
  states in which a pattern can end, in the order in which the backtracking matcher of
  \<open>re\<close> tries them: a greedy quantifier tries the longest repetition first, an alternation
  its left branch first. The flag is \<open>re.IGNORECASE\<close>; it acts on literals (no pattern
  compiled with the flag and modelled here has a character class).
\<close>

type_synonym mstate = "char option \<times> string \<times> (nat \<times> string) list"

definition is_word_opt :: "char option \<Rightarrow> bool" where
  "is_word_opt p = (case p of None \<Rightarrow> False | Some c \<Rightarrow> py_isword c)"

definition next_char :: "string \<Rightarrow> char option" where
  "next_char s = (case s of [] \<Rightarrow> None | c # _ \<Rightarrow> Some c)"

definition advance :: "char option \<Rightarrow> string \<Rightarrow> nat \<Rightarrow> char option" where
  "advance p s n = (if n = 0 then p else Some (s ! (n - 1)))"

fun ms :: "bool \<Rightarrow> regex \<Rightarrow> mstate \<Rightarrow> mstate list" where
  "ms ic Eps st = [st]"
| "ms ic (Chr c) (p, s, g) =
     (case s of
        [] \<Rightarrow> []
      | x # xs \<Rightarrow>
          if (if ic then py_lower_char x = py_lower_char c else x = c)
          then [(Some x, xs, g)] else [])"
| "ms ic (CSet cs) (p, s, g) =
     (case s of
        [] \<Rightarrow> []
      | x # xs \<Rightarrow> if in_csets cs x then [(Some x, xs, g)] else [])"
| "ms ic Bol (p, s, g) = (if p = None then [(p, s, g)] else [])"
| "ms ic WordB (p, s, g) =
     (if is_word_opt p \<noteq> is_word_opt (next_char s) then [(p, s, g)] else [])"
| "ms ic (Seq a b) st = concat (map (ms ic b) (ms ic a st))"
| "ms ic (Alt a b) st = ms ic a st @ ms ic b st"
| "ms ic (Opt a) st = ms ic a st @ [st]"
| "ms ic (Many cs lo hi) (p, s, g) =
     (let run = length (takeWhile (in_csets cs) s);
          top = (case hi of None \<Rightarrow> run | Some h \<Rightarrow> min h run)
      in map (\<lambda>n. (advance p s n, drop n s, g)) (rev [lo..<Suc top]))"
| "ms ic (Group k a) (p, s, g) =
     map (\<lambda>(p', s', g'). (p', s', (k, take (length s - length s') s) # g')) (ms ic a (p, s, g))"

text \<open>The match that \<open>re\<close> reports at a position: the first state, if there is one.\<close>

definition match_at ::
  "bool \<Rightarrow> regex \<Rightarrow> char option \<Rightarrow> string \<Rightarrow> (string \<times> (nat \<times> string) list) option" where
  "match_at ic rx p s =
     (case ms ic rx (p, s, []) of [] \<Rightarrow> None | (p', s', g) # _ \<Rightarrow> Some (s', g))"

text \<open>
  \<open>re.sub(pattern, repl, string)\<close> for a replacement text without group references, and
  the matches that \<open>re.finditer\<close> yields (matched text and groups). Both scan the string
  from the left; \<open>skip\<close> counts the characters still covered by the last match.
\<close>

fun re_sub_from :: "bool \<Rightarrow> regex \<Rightarrow> string \<Rightarrow> char option \<Rightarrow> nat \<Rightarrow> string \<Rightarrow> string" where
  "re_sub_from ic rx repl p skip [] =
     (if skip = 0 \<and> match_at ic rx p [] \<noteq> None then repl else [])"
| "re_sub_from ic rx repl p skip (c # cs) =
     (if skip > 0 then re_sub_from ic rx repl (Some c) (skip - 1) cs
      else case match_at ic rx p (c # cs) of
             None \<Rightarrow> c # re_sub_from ic rx repl (Some c) 0 cs
           | Some (s', g) \<Rightarrow>
               let k = length (c # cs) - length s'
               in if k = 0 then repl @ c # re_sub_from ic rx repl (Some c) 0 cs
                  else repl @ re_sub_from ic rx repl (Some c) (k - 1) cs)"

definition re_sub :: "bool \<Rightarrow> regex \<Rightarrow> string \<Rightarrow> string \<Rightarrow> string" where
  "re_sub ic rx repl s = re_sub_from ic rx repl None 0 s"

fun re_finditer_from ::
  "bool \<Rightarrow> regex \<Rightarrow> char option \<Rightarrow> nat \<Rightarrow> string \<Rightarrow> (string \<times> (nat \<times> string) list) list" where
  "re_finditer_from ic rx p skip [] =
     (if skip = 0 then (case match_at ic rx p [] of None \<Rightarrow> [] | Some (s', g) \<Rightarrow> [([], g)])
      else [])"
| "re_finditer_from ic rx p skip (c # cs) =
     (if skip > 0 then re_finditer_from ic rx (Some c) (skip - 1) cs
      else case match_at ic rx p (c # cs) of
             None \<Rightarrow> re_finditer_from ic rx (Some c) 0 cs
           | Some (s', g) \<Rightarrow>
               let k = length (c # cs) - length s'
               in (take k (c # cs), g) # re_finditer_from ic rx (Some c) (k - 1) cs)"

definition re_finditer :: "bool \<Rightarrow> regex \<Rightarrow> string \<Rightarrow> (string \<times> (nat \<times> string) list) list" where
  "re_finditer ic rx s = re_finditer_from ic rx None 0 s"

text \<open>\<open>bool(re.search(pattern, string))\<close>.\<close>

definition re_search :: "bool \<Rightarrow> regex \<Rightarrow> string \<Rightarrow> bool" where
  "re_search ic rx s = (re_finditer ic rx s \<noteq> [])"

text \<open>The text of group \<open>k\<close> as \<open>re.findall\<close> reports it: empty when the group took no part.\<close>

definition group_text :: "(nat \<times> string) list \<Rightarrow> nat \<Rightarrow> string" where
  "group_text g k = (case map_of g k of None \<Rightarrow> [] | Some t \<Rightarrow> t)"

section \<open>MD5 (\<open>hashlib.md5\<close>, RFC 1321)\<close>

text \<open>
  Bytes and 32-bit words are integers; every addition is reduced modulo \<open>2 ^ 32\<close> by
  \<open>w32\<close>. \<open>str.encode()\<close> is UTF-8: one byte below U+0080, two bytes from U+0080 to U+00FF.
\<close>

definition utf8_encode_char :: "char \<Rightarrow> int list" where
  "utf8_encode_char c =
     (let n = (of_char c :: int)
      in if n < 128 then [n]
         else [192 + n div 64, 128 + n mod 64])"

definition utf8_encode :: "string \<Rightarrow> int list" where
  "utf8_encode s = concat (map utf8_encode_char s)"

definition md5_s :: "nat list" where
  "md5_s = [7, 12, 17, 22, 7, 12, 17, 22, 7, 12, 17, 22, 7, 12, 17, 22,
            5, 9, 14, 20, 5, 9, 14, 20, 5, 9, 14, 20, 5, 9, 14, 20,
            4, 11, 16, 23, 4, 11, 16, 23, 4, 11, 16, 23, 4, 11, 16, 23,
            6, 10, 15, 21, 6, 10, 15, 21, 6, 10, 15, 21, 6, 10, 15, 21]"

definition md5_K :: "int list" where
  "md5_K =
     [0xd76aa478, 0xe8c7b756, 0x242070db, 0xc1bdceee,
      0xf57c0faf, 0x4787c62a, 0xa8304613, 0xfd469501,
      0x698098d8, 0x8b44f7af, 0xffff5bb1, 0x895cd7be,
      0x6b901122, 0xfd987193, 0xa679438e, 0x49b40821,
      0xf61e2562, 0xc040b340, 0x265e5a51, 0xe9b6c7aa,
      0xd62f105d, 0x02441453, 0xd8a1e681, 0xe7d3fbc8,
      0x21e1cde6, 0xc33707d6, 0xf4d50d87, 0x455a14ed,
      0xa9e3e905, 0xfcefa3f8, 0x676f02d9, 0x8d2a4c8a,
      0xfffa3942, 0x8771f681, 0x6d9d6122, 0xfde5380c,
      0xa4beea44, 0x4bdecfa9, 0xf6bb4b60, 0xbebfbc70,
      0x289b7ec6, 0xeaa127fa, 0xd4ef3085, 0x04881d05,
      0xd9d4d039, 0xe6db99e5, 0x1fa27cf8, 0xc4ac5665,
      0xf4292244, 0x432aff97, 0xab9423a7, 0xfc93a039,
      0x655b59c3, 0x8f0ccc92, 0xffeff47d, 0x85845dd1,
      0x6fa87e4f, 0xfe2ce6e0, 0xa3014314, 0x4e0811a1,
      0xf7537e82, 0xbd3af235, 0x2ad7d2bb, 0xeb86d391]"

definition w32 :: "int \<Rightarrow> int" where
  "w32 x = x mod 4294967296"

definition not32 :: "int \<Rightarrow> int" where
  "not32 x = 4294967295 - x"

definition rotl32 :: "nat \<Rightarrow> int \<Rightarrow> int" where
  "rotl32 s x = w32 (x * 2 ^ s) + x div 2 ^ (32 - s)"

definition md5_F :: "nat \<Rightarrow> int \<Rightarrow> int \<Rightarrow> int \<Rightarrow> int" where
  "md5_F i b c d =
     (if i < 16 then (b AND c) OR (not32 b AND d)
      else if i < 32 then (d AND b) OR (not32 d AND c)
      else if i < 48 then b XOR c XOR d
      else c XOR (b OR not32 d))"

definition md5_g :: "nat \<Rightarrow> nat" where
  "md5_g i =
     (if i < 16 then i
      else if i < 32 then (5 * i + 1) mod 16
      else if i < 48 then (3 * i + 5) mod 16
      else (7 * i) mod 16)"

type_synonym md5_state = "int \<times> int \<times> int \<times> int"

definition md5_step :: "int list \<Rightarrow> md5_state \<Rightarrow> nat \<Rightarrow> md5_state" where
  "md5_step M st i =
     (case st of (a, b, c, d) \<Rightarrow>
        (d, w32 (b + rotl32 (md5_s ! i) (w32 (md5_F i b c d + a + md5_K ! i + M ! md5_g i))), b, c))"

definition md5_block :: "md5_state \<Rightarrow> int list \<Rightarrow> md5_state" where
  "md5_block st M =
     (case st of (a0, b0, c0, d0) \<Rightarrow>
        (case foldl (md5_step M) st [0..<64] of (a, b, c, d) \<Rightarrow>
           (w32 (a0 + a), w32 (b0 + b), w32 (c0 + c), w32 (d0 + d))))"

definition le_bytes4 :: "int \<Rightarrow> int list" where
  "le_bytes4 x = [x mod 256, x div 256 mod 256, x div 65536 mod 256, x div 16777216 mod 256]"

definition le_bytes8 :: "int \<Rightarrow> int list" where
  "le_bytes8 x = le_bytes4 (x mod 4294967296) @ le_bytes4 (x div 4294967296 mod 4294967296)"

definition md5_pad :: "int list \<Rightarrow> int list" where
  "md5_pad msg =
     msg @ [128] @ replicate ((119 - length msg mod 64) mod 64) 0 @ le_bytes8 (8 * int (length msg))"

fun md5_words :: "int list \<Rightarrow> int list" where
  "md5_words (b0 # b1 # b2 # b3 # bs) =
     (b0 + 256 * b1 + 65536 * b2 + 16777216 * b3) # md5_words bs"
| "md5_words _ = []"

function md5_blocks :: "md5_state \<Rightarrow> int list \<Rightarrow> md5_state" where
  "md5_blocks st bs =
     (if length bs < 64 then st
      else md5_blocks (md5_block st (md5_words (take 64 bs))) (drop 64 bs))"
  by pat_completeness auto
termination
  by (relation "measure (\<lambda>(st, bs). length bs)") auto

declare md5_blocks.simps [simp del]

definition md5_init :: md5_state where
  "md5_init = (0x67452301, 0xefcdab89, 0x98badcfe, 0x10325476)"

definition md5_digest :: "int list \<Rightarrow> int list" where
  "md5_digest msg =
     (case md5_blocks md5_init (md5_pad msg) of (a, b, c, d) \<Rightarrow>
        le_bytes4 a @ le_bytes4 b @ le_bytes4 c @ le_bytes4 d)"

definition hex_char :: "nat \<Rightarrow> char" where
  "hex_char d = ''0123456789abcdef'' ! d"

definition hex_byte :: "int \<Rightarrow> string" where
  "hex_byte b = [hex_char (nat (b div 16)), hex_char (nat (b mod 16))]"

definition md5_hexdigest :: "int list \<Rightarrow> string" where
  "md5_hexdigest msg = concat (map hex_byte (md5_digest msg))"

section \<open>Conversation ids\<close>

text \<open>
  \<^verbatim>\<open>clean_subject = re.sub(r'^(re|fw|fwd):\s*', '', asunto.lower().strip())
  conversation_key = f"{remitente.lower()}|{clean_subject}"
  return hashlib.md5(conversation_key.encode()).hexdigest()[:12]\<close>
\<close>

definition prefix_pattern :: regex where
  "prefix_pattern =
     Seq Bol
       (Seq (Group 1 (Alt (lits ''re'') (Alt (lits ''fw'') (lits ''fwd''))))
         (Seq (Chr CHR '':'') (Many [CSpace] 0 None)))"

definition clean_subject :: "string \<Rightarrow> string" where
  "clean_subject asunto = re_sub False prefix_pattern [] (py_strip (py_lower asunto))"

definition conversation_key :: "string \<Rightarrow> string \<Rightarrow> string" where
  "conversation_key remitente asunto = py_lower remitente @ ''|'' @ clean_subject asunto"

definition get_conversation_id :: "string \<Rightarrow> string \<Rightarrow> string" where
  "get_conversation_id remitente asunto =
     take 12 (md5_hexdigest (utf8_encode (conversation_key remitente asunto)))"

text \<open>\<open>ConversationTracker.generate_conversation_id\<close> of \<open>utils/conversation_tracker.py\<close>.\<close>

definition generate_conversation_id :: "string \<Rightarrow> string \<Rightarrow> string" where
  "generate_conversation_id client_email subject =
     (let clean_subject = re_sub False prefix_pattern [] (py_strip (py_lower subject));
          conversation_key = py_lower client_email @ ''|'' @ clean_subject
      in take 12 (md5_hexdigest (utf8_encode conversation_key)))"

section \<open>Vocabulary of the statements about conversation ids\<close>

text \<open>
  A lower-case hexadecimal digit; a stripped, lowered subject that still begins with a
  reply or forward prefix; two texts that differ only in the case of their letters; a
  text that is one of the prefixes \<open>re:\<close>, \<open>fw:\<close>, \<open>fwd:\<close> in any case; and the text without
  its trailing white space.
\<close>

definition has_reply_prefix :: "string \<Rightarrow> bool" where
  "has_reply_prefix t = (take 3 t = ''re:'' \<or> take 3 t = ''fw:'' \<or> take 4 t = ''fwd:'')"

definition is_hex_char :: "char \<Rightarrow> bool" where
  "is_hex_char c = (c \<in> set ''0123456789abcdef'')"

definition rstrip :: "string \<Rightarrow> string" where
  "rstrip u = rev (dropWhile py_isspace (rev u))"

definition same_up_to_case :: "string \<Rightarrow> string \<Rightarrow> bool" where
  "same_up_to_case s t = list_all2 (\<lambda>x y. py_lower_char x = py_lower_char y) s t"

definition is_reply_prefix :: "string \<Rightarrow> bool" where
  "is_reply_prefix w = (py_lower w = ''re:'' \<or> py_lower w = ''fw:'' \<or> py_lower w = ''fwd:'')"

section \<open>Conversation store (\<open>db/conversation_db.py\<close>)\<close>

subsection \<open>Values and rows\<close>

text \<open>
  A value held in a column, as \<open>sqlite3\<close> hands it to Python: \<open>None\<close>, an \<open>int\<close> or a
  \<open>str\<close>. Where a function stores a value, its argument stands for the value the column
  holds once SQLite has applied the column's type affinity to the bound parameter.
\<close>

datatype sql_value = SqlNull | SqlInt int | SqlText string

text \<open>Python truthiness (\<open>not v\<close> is its negation): \<open>None\<close>, \<open>0\<close> and \<open>""\<close> are falsy.\<close>

fun py_truthy :: "sql_value \<Rightarrow> bool" where
  "py_truthy SqlNull = False"
| "py_truthy (SqlInt n) = (n \<noteq> 0)"
| "py_truthy (SqlText s) = (s \<noteq> [])"

datatype error = ValueError string | TypeError string

text \<open>A row of \<open>conversations\<close>; \<open>id\<close> is the primary key, \<open>asunto\<close> and \<open>remitente\<close> are \<open>NOT NULL\<close>.\<close>

record conversation =
  c_id :: string
  c_asunto :: string
  c_remitente :: string
  c_nombre_cliente :: sql_value
  c_propiedad :: sql_value
  c_propiedad_id :: sql_value
  c_check_in :: sql_value
  c_check_out :: sql_value
  c_numero_huespedes :: sql_value
  c_correo_cliente :: sql_value
  c_telefono_cliente :: sql_value
  c_confirmacion :: sql_value
  c_estado :: sql_value
  c_created_at :: string
  c_updated_at :: string

text \<open>\<open>dict(zip(columns, result))\<close>: the row as a dictionary from column names to values.\<close>

definition row_dict :: "conversation \<Rightarrow> (string \<rightharpoonup> sql_value)" where
  "row_dict c = map_of
     [(''id'', SqlText (c_id c)),
      (''asunto'', SqlText (c_asunto c)),
      (''remitente'', SqlText (c_remitente c)),
      (''nombre_cliente'', c_nombre_cliente c),
      (''propiedad'', c_propiedad c),
      (''propiedad_id'', c_propiedad_id c),
      (''check_in'', c_check_in c),
      (''check_out'', c_check_out c),
      (''numero_huespedes'', c_numero_huespedes c),
      (''correo_cliente'', c_correo_cliente c),
      (''telefono_cliente'', c_telefono_cliente c),
      (''confirmacion'', c_confirmacion c),
      (''estado'', c_estado c),
      (''created_at'', SqlText (c_created_at c)),
      (''updated_at'', SqlText (c_updated_at c))]"

text \<open>\<open>d.get(key)\<close>: \<open>None\<close> for a key the dictionary does not have.\<close>

definition dict_get :: "(string \<rightharpoonup> sql_value) \<Rightarrow> string \<Rightarrow> sql_value" where
  "dict_get d key = (case d key of None \<Rightarrow> SqlNull | Some v \<Rightarrow> v)"

subsection \<open>Operations\<close>

text \<open>
  The table is the list of its rows. \<open>datetime.now().isoformat()\<close> and the
  \<open>CURRENT_TIMESTAMP\<close> of a column default are arguments of the model.
\<close>

definition new_conversation :: "string \<Rightarrow> string \<Rightarrow> string \<Rightarrow> string \<Rightarrow> conversation" where
  "new_conversation conversation_id asunto remitente current_timestamp =
     \<lparr> c_id = conversation_id, c_asunto = asunto, c_remitente = remitente,
       c_nombre_cliente = SqlNull, c_propiedad = SqlNull, c_propiedad_id = SqlNull,
       c_check_in = SqlNull, c_check_out = SqlNull, c_numero_huespedes = SqlNull,
       c_correo_cliente = SqlNull, c_telefono_cliente = SqlNull, c_confirmacion = SqlNull,
       c_estado = SqlText ''en_progreso'',
       c_created_at = current_timestamp, c_updated_at = current_timestamp \<rparr>"

definition create_or_update_conversation ::
  "conversation list \<Rightarrow> string \<Rightarrow> string \<Rightarrow> string \<Rightarrow> string \<Rightarrow> string \<times> conversation list" where
  "create_or_update_conversation conversations current_timestamp now remitente asunto =
     (let conversation_id = get_conversation_id remitente asunto;
          exists = find (\<lambda>c. c_id c = conversation_id) conversations
      in case exists of
           Some _ \<Rightarrow>
             (conversation_id,
              map (\<lambda>c. if c_id c = conversation_id then c\<lparr>c_updated_at := now\<rparr> else c)
                conversations)
         | None \<Rightarrow>
             (conversation_id,
              conversations @ [new_conversation conversation_id asunto remitente current_timestamp]))"

definition get_conversation :: "conversation list \<Rightarrow> string \<Rightarrow> (string \<rightharpoonup> sql_value) option" where
  "get_conversation conversations conversation_id =
     (case find (\<lambda>c. c_id c = conversation_id) conversations of
        Some result \<Rightarrow> Some (row_dict result)
      | None \<Rightarrow> None)"

definition allowed_fields :: "string list" where
  "allowed_fields =
     [''nombre_cliente'', ''propiedad'', ''propiedad_id'', ''check_in'', ''check_out'',
      ''numero_huespedes'', ''correo_cliente'', ''telefono_cliente'', ''confirmacion'', ''estado'']"

text \<open>\<open>SET {field} = ?\<close> for a column name of the whitelist.\<close>

definition set_column :: "string \<Rightarrow> sql_value \<Rightarrow> conversation \<Rightarrow> conversation" where
  "set_column field v c =
     (if field = ''nombre_cliente'' then c\<lparr>c_nombre_cliente := v\<rparr>
      else if field = ''propiedad'' then c\<lparr>c_propiedad := v\<rparr>
      else if field = ''propiedad_id'' then c\<lparr>c_propiedad_id := v\<rparr>
      else if field = ''check_in'' then c\<lparr>c_check_in := v\<rparr>
      else if field = ''check_out'' then c\<lparr>c_check_out := v\<rparr>
      else if field = ''numero_huespedes'' then c\<lparr>c_numero_huespedes := v\<rparr>
      else if field = ''correo_cliente'' then c\<lparr>c_correo_cliente := v\<rparr>
      else if field = ''telefono_cliente'' then c\<lparr>c_telefono_cliente := v\<rparr>
      else if field = ''confirmacion'' then c\<lparr>c_confirmacion := v\<rparr>
      else if field = ''estado'' then c\<lparr>c_estado := v\<rparr>
      else c)"

text \<open>
  \<^verbatim>\<open>if field not in allowed_fields:
      raise ValueError(f"Campo no valido: {field}")
  UPDATE conversations SET {field} = ?, updated_at = ? WHERE id = ?\<close>
  (the message has an accented \<open>a\<close>, U+00E1).
\<close>

definition update_conversation_field ::
  "conversation list \<Rightarrow> string \<Rightarrow> string \<Rightarrow> string \<Rightarrow> sql_value \<Rightarrow> error + conversation list" where
  "update_conversation_field conversations now conversation_id field v =
     (if field \<notin> set allowed_fields
      then Inl (ValueError (''Campo no v'' @ [CHR 0xE1] @ ''lido: '' @ field))
      else Inr (map (\<lambda>c. if c_id c = conversation_id
                          then (set_column field v c)\<lparr>c_updated_at := now\<rparr>
                          else c) conversations))"

definition get_missing_fields :: "conversation list \<Rightarrow> string \<Rightarrow> string list" where
  "get_missing_fields conversations conversation_id =
     (case get_conversation conversations conversation_id of
        None \<Rightarrow>
          [''nombre_cliente'', ''propiedad'', ''check_in'', ''check_out'',
           ''numero_huespedes'', ''correo_cliente'']
      | Some conversation \<Rightarrow>
          let faltantes = [];
              faltantes = (if \<not> py_truthy (dict_get conversation ''nombre_cliente'')
                           then faltantes @ [''nombre_cliente''] else faltantes);
              faltantes = (if \<not> py_truthy (dict_get conversation ''propiedad'')
                           then faltantes @ [''propiedad''] else faltantes);
              faltantes = (if \<not> py_truthy (dict_get conversation ''check_in'')
                           then faltantes @ [''check_in''] else faltantes);
              faltantes = (if \<not> py_truthy (dict_get conversation ''check_out'')
                           then faltantes @ [''check_out''] else faltantes);
              faltantes = (if \<not> py_truthy (dict_get conversation ''numero_huespedes'')
                           then faltantes @ [''numero_huespedes''] else faltantes);
              faltantes = (if \<not> py_truthy (dict_get conversation ''correo_cliente'')
                           then faltantes @ [''correo_cliente''] else faltantes)
          in faltantes)"

text \<open>
  \<open>conversation.get('confirmacion') == 'si'\<close> with an accented \<open>i\<close> (U+00ED); a row
  dictionary is never empty, so \<open>if conversation\<close> tests for \<open>None\<close>.
\<close>

definition is_confirmed :: "conversation list \<Rightarrow> string \<Rightarrow> bool" where
  "is_confirmed conversations conversation_id =
     (case get_conversation conversations conversation_id of
        Some conversation \<Rightarrow> dict_get conversation ''confirmacion'' = SqlText [CHR ''s'', CHR 0xED]
      | None \<Rightarrow> False)"

text \<open>The six fields \<open>get_missing_fields\<close> looks at, in its order.\<close>

definition required_fields :: "string list" where
  "required_fields =
     [''nombre_cliente'', ''propiedad'', ''check_in'', ''check_out'',
      ''numero_huespedes'', ''correo_cliente'']"

text \<open>Running a list of \<open>(field, value)\<close> updates in order, stopping at the first error.\<close>

fun update_fields ::
  "conversation list \<Rightarrow> string \<Rightarrow> string \<Rightarrow> (string \<times> sql_value) list \<Rightarrow> error + conversation list" where
  "update_fields conversations now conversation_id [] = Inr conversations"
| "update_fields conversations now conversation_id ((field, v) # rest) =
     (case update_conversation_field conversations now conversation_id field v of
        Inl e \<Rightarrow> Inl e
      | Inr conversations' \<Rightarrow> update_fields conversations' now conversation_id rest)"

text \<open>The confirmation marker, and a conversation used as an example.\<close>

definition sql_si :: sql_value where
  "sql_si = SqlText [CHR ''s'', CHR 0xED]"

definition ejemplo_conversacion :: conversation where
  "ejemplo_conversacion =
     new_conversation ''72dcb0a41a6b'' ''Reserva Casa Playa'' ''maria@gmail.com''
       ''2024-10-01 10:00:00''"

definition ejemplo_conversacion_completa :: conversation where
  "ejemplo_conversacion_completa =
     ejemplo_conversacion
       \<lparr> c_nombre_cliente := SqlText ''Maria Soto'', c_propiedad := SqlText ''Casa Playa'',
         c_check_in := SqlText ''2024-10-15'', c_check_out := SqlText ''2024-10-20'',
         c_numero_huespedes := SqlInt 2, c_correo_cliente := SqlText ''maria@gmail.com'' \<rparr>"

section \<open>Confirmation detection\<close>

text \<open>The alternation of a list of patterns, left to right.\<close>

fun alts :: "regex list \<Rightarrow> regex" where
  "alts [] = Eps"
| "alts [r] = r"
| "alts (r # rs) = Alt r (alts rs)"

subsection \<open>\<open>NLPEngine.detect_confirmation\<close> (\<open>core/nlp_engine.py\<close>)\<close>





subsection \<open>\<open>OptimizedNLPEngine.detect_confirmation_optimized\<close> (\<open>core/optimized_nlp.py\<close>)\<close>

text \<open>
  \<^verbatim>\<open>re.compile(r'\b(?:confirmo|confirmado|ok|s\xed|si|vale|perfecto|de acuerdo)\b', re.IGNORECASE)\<close>
\<close>

definition confirmation_keywords :: "string list" where
  "confirmation_keywords =
     [''confirmo'', ''confirmado'', ''ok'', [CHR ''s'', CHR 0xED], ''si'', ''vale'', ''perfecto'',
      ''de acuerdo'']"

definition compiled_confirmation :: regex where
  "compiled_confirmation = Seq WordB (Seq (alts (map lits confirmation_keywords)) WordB)"

text \<open>
  The result cache is a dictionary in insertion order: a list of pairs with distinct
  keys. Storing under a key that is present replaces its value in place; a new key goes
  to the end. When the cache holds \<open>_max_cache_size\<close> entries, \<open>_cache_result\<close> first
  deletes the 100 oldest.
\<close>

type_synonym result_cache = "(string \<times> py_value) list"

definition max_cache_size :: nat where
  "max_cache_size = 1000"

definition dict_store :: "result_cache \<Rightarrow> string \<Rightarrow> py_value \<Rightarrow> result_cache" where
  "dict_store d k v =
     (if map_of d k = None then d @ [(k, v)]
      else map (\<lambda>(k', v'). if k' = k then (k', v) else (k', v')) d)"

definition get_cache_key :: "string \<Rightarrow> string \<Rightarrow> string" where
  "get_cache_key text operation = operation @ ''_'' @ md5_hexdigest (utf8_encode text)"

definition get_cached_result :: "result_cache \<Rightarrow> string \<Rightarrow> string \<Rightarrow> py_value" where
  "get_cached_result cache text operation =
     (case map_of cache (get_cache_key text operation) of None \<Rightarrow> PyNone | Some v \<Rightarrow> v)"

definition cache_result :: "result_cache \<Rightarrow> string \<Rightarrow> string \<Rightarrow> py_value \<Rightarrow> result_cache" where
  "cache_result cache text operation result =
     (let cache1 = (if length cache \<ge> max_cache_size then drop 100 cache else cache)
      in dict_store cache1 (get_cache_key text operation) result)"

text \<open>The method returns its result and the cache it leaves.\<close>

definition detect_confirmation_optimized :: "result_cache \<Rightarrow> string \<Rightarrow> py_value \<times> result_cache" where
  "detect_confirmation_optimized cache text =
     (let cached_result = get_cached_result cache text ''confirmation''
      in if cached_result \<noteq> PyNone then (cached_result, cache)
         else
           let confirmation = re_search True compiled_confirmation text
           in (PyBool confirmation, cache_result cache text ''confirmation'' (PyBool confirmation)))"

subsection \<open>The engine's cache over a sequence of calls\<close>

text \<open>
  \<open>_result_cache\<close> is private to the engine: it is empty after \<open>__init__\<close>, emptied by
  \<open>clear_cache\<close>, and written only through \<open>_cache_result\<close>, by \<open>detect_confirmation_optimized\<close>
  and by the four other cached methods \<open>extract_names_optimized\<close>, \<open>extract_dates_optimized\<close>,
  \<open>extract_capacity_optimized\<close> and \<open>extract_contact_info_optimized\<close>, each under its own
  operation name. These four share one shape: return what the cache holds when that is
  not \<open>None\<close>, otherwise compute a value, store it and return it. The value computed is an
  argument here.
\<close>

datatype cached_operation = Names | Dates | Capacity | Contact

fun operation_name :: "cached_operation \<Rightarrow> string" where
  "operation_name Names = ''names''"
| "operation_name Dates = ''dates''"
| "operation_name Capacity = ''capacity''"
| "operation_name Contact = ''contact''"

definition cached_method ::
  "result_cache \<Rightarrow> cached_operation \<Rightarrow> string \<Rightarrow> py_value \<Rightarrow> py_value \<times> result_cache" where
  "cached_method cache operation text computed =
     (let cached_result = get_cached_result cache text (operation_name operation)
      in if cached_result \<noteq> PyNone then (cached_result, cache)
         else (computed, cache_result cache text (operation_name operation) computed))"

definition OptimizedNLPEngine_init :: result_cache where
  "OptimizedNLPEngine_init = []"

definition clear_cache :: "result_cache \<Rightarrow> result_cache" where
  "clear_cache cache = []"

datatype engine_call =
    Detect_confirmation string
  | Cached_method cached_operation string py_value
  | Clear_cache

fun engine_call_cache :: "result_cache \<Rightarrow> engine_call \<Rightarrow> result_cache" where
  "engine_call_cache cache (Detect_confirmation text) = snd (detect_confirmation_optimized cache text)"
| "engine_call_cache cache (Cached_method operation text computed) =
     snd (cached_method cache operation text computed)"
| "engine_call_cache cache Clear_cache = clear_cache cache"

text \<open>The cache after a sequence of calls, the first call first.\<close>

fun engine_calls :: "result_cache \<Rightarrow> engine_call list \<Rightarrow> result_cache" where
  "engine_calls cache [] = cache"
| "engine_calls cache (c # cs) = engine_calls (engine_call_cache cache c) cs"



section \<open>Object pools (\<open>utils/memory_optimizer.py\<close>)\<close>

subsection \<open>Objects and the heap\<close>

text \<open>
  Pooled objects are mutable and shared by reference: the heap is the list of the objects
  allocated so far, a reference is an index into it. What a class gives its instances is
  a record: whether they have a \<open>reset\<close> attribute, what calling it does to the instance,
  and whether they can be weakly referenced (instances of \<open>str\<close>, \<open>list\<close> and \<open>dict\<close>
  cannot: \<open>weakref.ref\<close> raises \<open>TypeError\<close> for them).
\<close>

record 'o obj_class =
  has_reset :: "'o \<Rightarrow> bool"
  call_reset :: "'o \<Rightarrow> 'o"
  weakrefable :: "'o \<Rightarrow> bool"

subsection \<open>\<open>ObjectPool\<close>\<close>

text \<open>
  \<open>pool\<close> is the \<open>deque(maxlen=max_size)\<close> of references, \<open>active_objects\<close> the \<open>WeakSet\<close>.
  The constructor of a deque refuses a negative \<open>maxlen\<close>.
\<close>

record object_pool =
  max_size :: int
  pool :: "nat list"
  active_objects :: "nat set"

definition ObjectPool_init :: "int \<Rightarrow> error + object_pool" where
  "ObjectPool_init maxlen =
     (if maxlen < 0 then Inl (ValueError ''maxlen must be non-negative'')
      else Inr \<lparr> max_size = maxlen, pool = [], active_objects = {} \<rparr>)"

text \<open>\<open>deque.append\<close> on a bounded deque: a full deque drops its leftmost element.\<close>

definition deque_append :: "int \<Rightarrow> nat list \<Rightarrow> nat \<Rightarrow> nat list" where
  "deque_append maxlen xs x =
     (if maxlen = 0 then xs
      else if int (length xs) = maxlen then tl xs @ [x]
      else xs @ [x])"

text \<open>
  \<open>get\<close>: take the leftmost pooled reference or allocate what the factory makes, then add
  it to the weak set, which raises \<open>TypeError\<close> for an object that cannot be weakly
  referenced. The result is the outcome, the pool and the heap.
\<close>

definition pool_get ::
  "'o obj_class \<Rightarrow> 'o \<Rightarrow> object_pool \<Rightarrow> 'o list \<Rightarrow> (error + nat) \<times> object_pool \<times> 'o list" where
  "pool_get cls factory P heap =
     (let (obj, pool', heap') =
            (if pool P \<noteq> [] then (hd (pool P), tl (pool P), heap)
             else (length heap, pool P, heap @ [factory]))
      in if weakrefable cls (heap' ! obj)
         then (Inr obj, P\<lparr>pool := pool', active_objects := insert obj (active_objects P)\<rparr>, heap')
         else (Inl (TypeError ''cannot create weak reference''), P\<lparr>pool := pool'\<rparr>, heap'))"

text \<open>
  \<open>return_object\<close>: under capacity, call \<open>reset\<close> when the object has it and append the
  reference; then discard it from the weak set (\<open>TypeError\<close> as above).
\<close>

definition return_object ::
  "'o obj_class \<Rightarrow> object_pool \<Rightarrow> 'o list \<Rightarrow> nat \<Rightarrow> (error + unit) \<times> object_pool \<times> 'o list" where
  "return_object cls P heap obj =
     (let (pool', heap') =
            (if int (length (pool P)) < max_size P
             then (deque_append (max_size P) (pool P) obj,
                   if has_reset cls (heap ! obj) then heap[obj := call_reset cls (heap ! obj)]
                   else heap)
             else (pool P, heap))
      in if weakrefable cls (heap' ! obj)
         then (Inr (), P\<lparr>pool := pool', active_objects := active_objects P - {obj}\<rparr>, heap')
         else (Inl (TypeError ''cannot create weak reference''), P\<lparr>pool := pool'\<rparr>, heap'))"

text \<open>A sequence of calls on one pool; a caller may go on after an exception.\<close>

datatype pool_call = Get | Return nat

fun pool_calls ::
  "'o obj_class \<Rightarrow> 'o \<Rightarrow> object_pool \<Rightarrow> 'o list \<Rightarrow> pool_call list \<Rightarrow> object_pool \<times> 'o list" where
  "pool_calls cls factory P heap [] = (P, heap)"
| "pool_calls cls factory P heap (Get # calls) =
     (case pool_get cls factory P heap of (r, P', heap') \<Rightarrow> pool_calls cls factory P' heap' calls)"
| "pool_calls cls factory P heap (Return obj # calls) =
     (case return_object cls P heap obj of (r, P', heap') \<Rightarrow> pool_calls cls factory P' heap' calls)"

subsection \<open>The module's pools and \<open>return_to_pool\<close>\<close>

datatype pyobj =
    PyStrObj string
  | PyListObj "py_value list"
  | PyDictObj "(py_value \<times> py_value) list"
  | PyOtherObj

text \<open>The built-in types have no \<open>reset\<close> attribute and no weak references.\<close>

definition builtin_class :: "pyobj obj_class" where
  "builtin_class = \<lparr> has_reset = (\<lambda>x. False), call_reset = (\<lambda>x. x), weakrefable = (\<lambda>x. False) \<rparr>"

text \<open>
  \<^verbatim>\<open>string_pool = ObjectPool(lambda: "", max_size=50)
  list_pool = ObjectPool(lambda: [], max_size=20)
  dict_pool = ObjectPool(lambda: {}, max_size=20)\<close>
\<close>

record pools =
  string_pool :: object_pool
  list_pool :: object_pool
  dict_pool :: object_pool

definition initial_pools :: pools where
  "initial_pools =
     \<lparr> string_pool = \<lparr> max_size = 50, pool = [], active_objects = {} \<rparr>,
       list_pool = \<lparr> max_size = 20, pool = [], active_objects = {} \<rparr>,
       dict_pool = \<lparr> max_size = 20, pool = [], active_objects = {} \<rparr> \<rparr>"

definition get_pooled_list :: "pools \<Rightarrow> pyobj list \<Rightarrow> (error + nat) \<times> pools \<times> pyobj list" where
  "get_pooled_list G heap =
     (case pool_get builtin_class (PyListObj []) (list_pool G) heap of
        (r, P', heap') \<Rightarrow> (r, G\<lparr>list_pool := P'\<rparr>, heap'))"

text \<open>
  \<^verbatim>\<open>if isinstance(obj, str): string_pool.return_object(obj)
  elif isinstance(obj, list): obj.clear(); list_pool.return_object(obj)
  elif isinstance(obj, dict): obj.clear(); dict_pool.return_object(obj)\<close>
\<close>

definition return_to_pool :: "pools \<Rightarrow> pyobj list \<Rightarrow> nat \<Rightarrow> (error + unit) \<times> pools \<times> pyobj list" where
  "return_to_pool G heap obj =
     (case heap ! obj of
        PyStrObj s \<Rightarrow>
          (case return_object builtin_class (string_pool G) heap obj of
             (r, P', heap') \<Rightarrow> (r, G\<lparr>string_pool := P'\<rparr>, heap'))
      | PyListObj xs \<Rightarrow>
          (case return_object builtin_class (list_pool G) (heap[obj := PyListObj []]) obj of
             (r, P', heap') \<Rightarrow> (r, G\<lparr>list_pool := P'\<rparr>, heap'))
      | PyDictObj kvs \<Rightarrow>
          (case return_object builtin_class (dict_pool G) (heap[obj := PyDictObj []]) obj of
             (r, P', heap') \<Rightarrow> (r, G\<lparr>dict_pool := P'\<rparr>, heap'))
      | PyOtherObj \<Rightarrow> (Inr (), G, heap))"

text \<open>The invariant of a pool, and the length of the list a reference points to.\<close>

definition pool_bounded :: "object_pool \<Rightarrow> bool" where
  "pool_bounded P = (int (length (pool P)) \<le> max_size P)"

definition list_length :: "pyobj list \<Rightarrow> nat \<Rightarrow> nat option" where
  "list_length heap obj =
     (if obj < length heap
      then (case heap ! obj of PyListObj xs \<Rightarrow> Some (length xs) | _ \<Rightarrow> None)
      else None)"

section \<open>Date extraction (\<open>core/nlp_engine.py\<close>)\<close>

subsection \<open>\<open>int(s)\<close>, \<open>{n:02d}\<close> and \<open>str.split\<close>\<close>

text \<open>
  \<open>int\<close> of a text: white space around it is dropped, a sign may come first, then decimal
  digits, where single underscores may stand between digits. \<open>None\<close> is \<open>ValueError\<close>.
\<close>

definition digit_value :: "char \<Rightarrow> nat" where
  "digit_value c = of_char c - 48"

fun parse_digits :: "bool \<Rightarrow> nat \<Rightarrow> string \<Rightarrow> nat option" where
  "parse_digits prev acc [] = (if prev then Some acc else None)"
| "parse_digits prev acc (c # cs) =
     (if py_isdigit c then parse_digits True (10 * acc + digit_value c) cs
      else if c = CHR ''_'' \<and> prev \<and> cs \<noteq> [] \<and> py_isdigit (hd cs) then parse_digits False acc cs
      else None)"

definition py_int :: "string \<Rightarrow> int option" where
  "py_int s =
     (case py_strip s of
        [] \<Rightarrow> None
      | c # cs \<Rightarrow>
          if c = CHR ''-'' then map_option (\<lambda>n. - int n) (parse_digits False 0 cs)
          else if c = CHR ''+'' then map_option int (parse_digits False 0 cs)
          else map_option int (parse_digits False 0 (c # cs)))"

definition fmt_02d :: "int \<Rightarrow> string" where
  "fmt_02d n = (if 0 \<le> n \<and> n < 10 then CHR ''0'' # str_int n else str_int n)"

text \<open>\<open>s.split(sep)\<close> for a separator that is not empty.\<close>

fun py_split_from :: "string \<Rightarrow> string \<Rightarrow> nat \<Rightarrow> string \<Rightarrow> string list" where
  "py_split_from sep cur skip [] = [cur]"
| "py_split_from sep cur skip (c # cs) =
     (if skip > 0 then py_split_from sep cur (skip - 1) cs
      else if take (length sep) (c # cs) = sep
      then cur # py_split_from sep [] (length sep - 1) cs
      else py_split_from sep (cur @ [c]) 0 cs)"

definition py_split :: "string \<Rightarrow> string \<Rightarrow> string list" where
  "py_split sep s = py_split_from sep [] 0 s"

subsection \<open>Calendar dates (\<open>datetime\<close>)\<close>

text \<open>
  A date is year, month and day. The ordinal of a date and its inverse follow
  \<open>_ymd2ord\<close> and \<open>_ord2ymd\<close> of \<open>datetime\<close>; years run from 1 to 9999.
\<close>

type_synonym date = "int \<times> int \<times> int"

definition is_leap :: "int \<Rightarrow> bool" where
  "is_leap y = (y mod 4 = 0 \<and> (y mod 100 \<noteq> 0 \<or> y mod 400 = 0))"

definition days_in_month_table :: "int list" where
  "days_in_month_table = [31, 28, 31, 30, 31, 30, 31, 31, 30, 31, 30, 31]"

definition days_before_month_table :: "int list" where
  "days_before_month_table = [0, 31, 59, 90, 120, 151, 181, 212, 243, 273, 304, 334]"

definition days_in_month :: "int \<Rightarrow> int \<Rightarrow> int" where
  "days_in_month y m =
     (if m = 2 \<and> is_leap y then 29 else days_in_month_table ! nat (m - 1))"

definition days_before_month :: "int \<Rightarrow> int \<Rightarrow> int" where
  "days_before_month y m =
     days_before_month_table ! nat (m - 1) + (if m > 2 \<and> is_leap y then 1 else 0)"

definition days_before_year :: "int \<Rightarrow> int" where
  "days_before_year y = (y - 1) * 365 + (y - 1) div 4 - (y - 1) div 100 + (y - 1) div 400"

definition valid_date :: "int \<Rightarrow> int \<Rightarrow> int \<Rightarrow> bool" where
  "valid_date y m d =
     (1 \<le> y \<and> y \<le> 9999 \<and> 1 \<le> m \<and> m \<le> 12 \<and> 1 \<le> d \<and> d \<le> days_in_month y m)"

definition ymd2ord :: "date \<Rightarrow> int" where
  "ymd2ord dt = (case dt of (y, m, d) \<Rightarrow> days_before_year y + days_before_month y m + d)"

definition ord2ymd :: "int \<Rightarrow> date" where
  "ord2ymd n0 =
     (let n = n0 - 1;
          n400 = n div 146097; n = n mod 146097;
          n100 = n div 36524; n = n mod 36524;
          n4 = n div 1461; n = n mod 1461;
          n1 = n div 365; n = n mod 365;
          year = n400 * 400 + 1 + n100 * 100 + n4 * 4 + n1
      in if n1 = 4 \<or> n100 = 4 then (year - 1, 12, 31)
         else
           let leapyear = (n1 = 3 \<and> (n4 \<noteq> 24 \<or> n100 = 3));
               month = (n + 50) div 32;
               preceding = days_before_month_table ! nat (month - 1)
                             + (if month > 2 \<and> leapyear then 1 else 0)
           in if preceding > n
              then let month' = month - 1;
                       preceding' = preceding - (days_in_month_table ! nat (month' - 1)
                                       + (if month' = 2 \<and> leapyear then 1 else 0))
                   in (year, month', n - preceding' + 1)
              else (year, month, n - preceding + 1))"

text \<open>
  \<open>date + timedelta(days=k)\<close>: \<open>OverflowError\<close> (\<open>None\<close>) when \<open>k\<close> is beyond 999999999 in
  size or the result leaves the years 1 to 9999.
\<close>

definition date_add_days :: "date \<Rightarrow> int \<Rightarrow> date option" where
  "date_add_days dt k =
     (if k < - 999999999 \<or> k > 999999999 then None
      else let n = ymd2ord dt + k
           in if 1 \<le> n \<and> n \<le> 3652059 then Some (ord2ymd n) else None)"

text \<open>\<open>strftime('%Y-%m-%d')\<close>; the C library prints the year without padding.\<close>

definition strftime_ymd :: "date \<Rightarrow> string" where
  "strftime_ymd dt = (case dt of (y, m, d) \<Rightarrow> str_int y @ ''-'' @ fmt_02d m @ ''-'' @ fmt_02d d)"

subsection \<open>\<open>datetime.strptime\<close>\<close>

text \<open>
  \<open>_strptime\<close> turns a format into a regular expression, one named group per directive,
  compiles it with \<open>IGNORECASE\<close>, matches it at the start of the text and refuses text that
  is left over:
  \<^verbatim>\<open>'d': r"(?P<d>3[0-1]|[1-2]\d|0[1-9]|[1-9]| [1-9])"
  'm': r"(?P<m>1[0-2]|0[1-9]|[1-9])"
  'Y': r"(?P<Y>\d\d\d\d)"
  'y': r"(?P<y>\d\d)"\<close>
  The groups \<open>d\<close>, \<open>m\<close>, \<open>Y\<close>, \<open>y\<close> are numbered 1 to 4 here.
\<close>

fun seqs :: "regex list \<Rightarrow> regex" where
  "seqs [] = Eps"
| "seqs [r] = r"
| "seqs (r # rs) = Seq r (seqs rs)"

datatype directive = Dir_d | Dir_m | Dir_Y | Dir_y | Lit char

definition digit_range :: "char \<Rightarrow> char \<Rightarrow> regex" where
  "digit_range a b = CSet [CRange a b]"

fun directive_regex :: "directive \<Rightarrow> regex" where
  "directive_regex Dir_d =
     Group 1 (alts [Seq (Chr CHR ''3'') (digit_range CHR ''0'' CHR ''1''),
                    Seq (digit_range CHR ''1'' CHR ''2'') (CSet [CDigit]),
                    Seq (Chr CHR ''0'') (digit_range CHR ''1'' CHR ''9''),
                    digit_range CHR ''1'' CHR ''9'',
                    Seq (Chr CHR '' '') (digit_range CHR ''1'' CHR ''9'')])"
| "directive_regex Dir_m =
     Group 2 (alts [Seq (Chr CHR ''1'') (digit_range CHR ''0'' CHR ''2''),
                    Seq (Chr CHR ''0'') (digit_range CHR ''1'' CHR ''9''),
                    digit_range CHR ''1'' CHR ''9''])"
| "directive_regex Dir_Y = Group 3 (Many [CDigit] 4 (Some 4))"
| "directive_regex Dir_y = Group 4 (Many [CDigit] 2 (Some 2))"
| "directive_regex (Lit c) = Chr c"

definition format_regex :: "directive list \<Rightarrow> regex" where
  "format_regex fmt = seqs (map directive_regex fmt)"

text \<open>The year of a two-digit \<open>%y\<close>: up to 68 in the 2000s, from 69 in the 1900s.\<close>

definition strptime :: "string \<Rightarrow> directive list \<Rightarrow> date option" where
  "strptime data_string fmt =
     (case match_at True (format_regex fmt) None data_string of
        None \<Rightarrow> None
      | Some (rest, g) \<Rightarrow>
          if rest \<noteq> [] then None
          else
            (case (if map_of g 3 \<noteq> None then py_int (group_text g 3)
                   else map_option (\<lambda>yy. if yy \<le> 68 then 2000 + yy else 1900 + yy)
                          (py_int (group_text g 4)),
                   py_int (group_text g 2), py_int (group_text g 1)) of
               (Some year, Some month, Some day) \<Rightarrow>
                 if valid_date year month day then Some (year, month, day) else None
             | _ \<Rightarrow> None))"

subsection \<open>The engine's tables and helpers\<close>

definition spanish_months :: "string \<rightharpoonup> int" where
  "spanish_months = map_of
     [(''enero'', 1), (''febrero'', 2), (''marzo'', 3), (''abril'', 4), (''mayo'', 5),
      (''junio'', 6), (''julio'', 7), (''agosto'', 8), (''septiembre'', 9), (''octubre'', 10),
      (''noviembre'', 11), (''diciembre'', 12)]"

text \<open>The clock reading \<open>datetime.now()\<close> is an argument: its year and its month.\<close>

definition get_appropriate_year :: "int \<times> int \<Rightarrow> int \<Rightarrow> int" where
  "get_appropriate_year now month_num =
     (case now of (current_year, current_month) \<Rightarrow>
        if month_num < current_month \<and> current_month \<ge> 10 then current_year + 1
        else current_year)"

definition fmt_date :: "int \<Rightarrow> int \<Rightarrow> int \<Rightarrow> string" where
  "fmt_date year month_num day = str_int year @ ''-'' @ fmt_02d month_num @ ''-'' @ fmt_02d day"

definition formats :: "directive list list" where
  "formats =
     [[Dir_d, Lit CHR ''/'', Dir_m, Lit CHR ''/'', Dir_Y],
      [Dir_d, Lit CHR ''-'', Dir_m, Lit CHR ''-'', Dir_Y],
      [Dir_Y, Lit CHR ''-'', Dir_m, Lit CHR ''-'', Dir_d],
      [Dir_d, Lit CHR ''/'', Dir_m, Lit CHR ''/'', Dir_y],
      [Dir_d, Lit CHR ''-'', Dir_m, Lit CHR ''-'', Dir_y]]"

fun try_formats :: "string \<Rightarrow> directive list list \<Rightarrow> date option" where
  "try_formats date_str [] = None"
| "try_formats date_str (fmt # fmts) =
     (case strptime date_str fmt of
        Some date_obj \<Rightarrow> Some date_obj
      | None \<Rightarrow> try_formats date_str fmts)"

text \<open>\<open>_normalize_date\<close>: the five formats, then the form \<open>D de MONTH\<close>; \<open>None\<close> otherwise.\<close>

definition normalize_date :: "int \<times> int \<Rightarrow> string \<Rightarrow> string option" where
  "normalize_date now date_str =
     (case try_formats date_str formats of
        Some date_obj \<Rightarrow> Some (strftime_ymd date_obj)
      | None \<Rightarrow>
          if py_contains ''de'' date_str then
            (let parts = py_split '' de '' date_str
             in if length parts = 2 then
                  (case spanish_months (py_lower (parts ! 1)) of
                     None \<Rightarrow> None
                   | Some month_num \<Rightarrow>
                       (case py_int (parts ! 0) of
                          None \<Rightarrow> None
                        | Some day \<Rightarrow>
                            Some (fmt_date (get_appropriate_year now month_num) month_num day)))
                else None)
          else None)"

subsection \<open>\<open>NLPEngine.extract_dates\<close>\<close>

definition spaces1 :: regex where
  "spaces1 = Many [CSpace] 1 None"

definition digits12 :: regex where
  "digits12 = Many [CDigit] 1 (Some 2)"

text \<open>\<open>[a-zA-Z...]+\<close> with the accented vowels and the n with tilde of the source.\<close>

definition month_word :: regex where
  "month_word =
     Many [CRange CHR ''a'' CHR ''z'', CRange CHR ''A'' CHR ''Z'', CChar (CHR 0xE1),
           CChar (CHR 0xE9), CChar (CHR 0xED), CChar (CHR 0xF3), CChar (CHR 0xFA),
           CChar (CHR 0xF1)] 1 None"

definition desde_el :: regex where
  "desde_el = Opt (seqs [lits ''desde'', spaces1, lits ''el'', spaces1])"

text \<open>\<^verbatim>\<open>(?:del?\s+)?(\d{1,2})\s+(?:al?\s+)?(\d{1,2})\s+de\s+([a-zA-Z...]+)\<close>\<close>

definition pattern1 :: regex where
  "pattern1 =
     seqs [Opt (seqs [lits ''de'', Opt (Chr CHR ''l''), spaces1]),
           Group 1 digits12, spaces1,
           Opt (seqs [Chr CHR ''a'', Opt (Chr CHR ''l''), spaces1]),
           Group 2 digits12, spaces1, lits ''de'', spaces1, Group 3 month_word]"

text \<open>\<^verbatim>\<open>(?:desde\s+el\s+)?(\d{1,2})\s+de\s+([a-zA-Z...]+)\s+(?:hasta\s+el\s+)?(\d{1,2})\s+de\s+([a-zA-Z...]+)\<close>\<close>

definition pattern2 :: regex where
  "pattern2 =
     seqs [desde_el, Group 1 digits12, spaces1, lits ''de'', spaces1, Group 2 month_word, spaces1,
           Opt (seqs [lits ''hasta'', spaces1, lits ''el'', spaces1]),
           Group 3 digits12, spaces1, lits ''de'', spaces1, Group 4 month_word]"

text \<open>\<^verbatim>\<open>(?:desde\s+el\s+)?(\d{1,2})\s+de\s+([a-zA-Z...]+)\s+por\s+(\d+)\s+(?:d[i\xed]as?|noches?)\<close>\<close>

definition pattern3 :: regex where
  "pattern3 =
     seqs [desde_el, Group 1 digits12, spaces1, lits ''de'', spaces1, Group 2 month_word, spaces1,
           lits ''por'', spaces1, Group 3 (Many [CDigit] 1 None), spaces1,
           Alt (seqs [Chr CHR ''d'', CSet [CChar CHR ''i'', CChar (CHR 0xED)], Chr CHR ''a'',
                      Opt (Chr CHR ''s'')])
               (seqs [lits ''noche'', Opt (Chr CHR ''s'')])]"

text \<open>\<^verbatim>\<open>(\d{1,2}[/-]\d{1,2}[/-]\d{2,4})\<close>\<close>

definition standard_pattern :: regex where
  "standard_pattern =
     Group 1 (seqs [digits12, CSet [CChar CHR ''/'', CChar CHR ''-''], digits12,
                    CSet [CChar CHR ''/'', CChar CHR ''-''], Many [CDigit] 2 (Some 4)])"

text \<open>
  The body of each \<open>for match in matches\<close> loop: the dates one match adds to
  \<open>dates_found\<close>, none when the month is unknown or an exception is caught.
\<close>

definition dates_of_match1 :: "int \<times> int \<Rightarrow> (nat \<times> string) list \<Rightarrow> string list" where
  "dates_of_match1 now g =
     (case (py_int (group_text g 1), py_int (group_text g 2),
            spanish_months (py_lower (group_text g 3))) of
        (Some day_start, Some day_end, Some month_num) \<Rightarrow>
          (let year = get_appropriate_year now month_num
           in [fmt_date year month_num day_start, fmt_date year month_num day_end])
      | _ \<Rightarrow> [])"

definition dates_of_match2 :: "int \<times> int \<Rightarrow> (nat \<times> string) list \<Rightarrow> string list" where
  "dates_of_match2 now g =
     (case (py_int (group_text g 1), spanish_months (py_lower (group_text g 2)),
            py_int (group_text g 3), spanish_months (py_lower (group_text g 4))) of
        (Some day_start, Some month_start_num, Some day_end, Some month_end_num) \<Rightarrow>
          [fmt_date (get_appropriate_year now month_start_num) month_start_num day_start,
           fmt_date (get_appropriate_year now month_end_num) month_end_num day_end]
      | _ \<Rightarrow> [])"

definition dates_of_match3 :: "int \<times> int \<Rightarrow> (nat \<times> string) list \<Rightarrow> string list" where
  "dates_of_match3 now g =
     (case (py_int (group_text g 1), spanish_months (py_lower (group_text g 2)),
            py_int (group_text g 3)) of
        (Some day_start, Some month_num, Some days) \<Rightarrow>
          (let start_date = fmt_date (get_appropriate_year now month_num) month_num day_start
           in case strptime start_date [Dir_Y, Lit CHR ''-'', Dir_m, Lit CHR ''-'', Dir_d] of
                None \<Rightarrow> []
              | Some start_obj \<Rightarrow>
                  (case date_add_days start_obj (days - 1) of
                     None \<Rightarrow> []
                   | Some end_obj \<Rightarrow> [start_date, strftime_ymd end_obj]))
      | _ \<Rightarrow> [])"

definition extract_dates :: "int \<times> int \<Rightarrow> string \<Rightarrow> string list" where
  "extract_dates now text =
     (let text_lower = py_lower text;
          dates_found =
            concat (map (\<lambda>(m, g). dates_of_match1 now g) (re_finditer False pattern1 text_lower))
            @ concat (map (\<lambda>(m, g). dates_of_match2 now g) (re_finditer False pattern2 text_lower))
            @ concat (map (\<lambda>(m, g). dates_of_match3 now g) (re_finditer False pattern3 text_lower))
            @ map (\<lambda>(m, g). group_text g 1) (re_finditer False standard_pattern text);
          normalized_dates =
            concat (map (\<lambda>date_str. case normalize_date now date_str of
                                       None \<Rightarrow> []
                                     | Some normalized \<Rightarrow> if normalized \<noteq> [] then [normalized] else [])
                        dates_found)
      in sort (remdups normalized_dates))"

text \<open>
  \<open>_build_date_patterns\<close> lists six patterns, among them
  \<^verbatim>\<open>r'entre\s+el\s+(\d{1,2})\s+y\s+(\d{1,2})\s+de\s+([a-zA-Z...]+)'\<close>
  under the comment \<open>Fechas entre\<close>; the list is stored in \<open>self.date_patterns\<close>, which
  \<open>extract_dates\<close> does not read.
\<close>

definition entre_pattern :: regex where
  "entre_pattern =
     seqs [lits ''entre'', spaces1, lits ''el'', spaces1, Group 1 digits12, spaces1,
           Chr CHR ''y'', spaces1, Group 2 digits12, spaces1, lits ''de'', spaces1,
           Group 3 month_word]"

section \<open>Example data\<close>

definition ejemplo_reserva :: reserva where
  "ejemplo_reserva =
     \<lparr> r_id = 1, r_propiedad_id = Some 7, r_fecha_inicio = ''2024-10-10'',
       r_fecha_fin = ''2024-10-15'', r_huesped = ''Ana'', r_correo = None, r_telefono = None,
       r_estado = Some ''pendiente'', r_precio_total = None \<rparr>"

definition ejemplo_reserva_cancelada :: reserva where
  "ejemplo_reserva_cancelada =
     \<lparr> r_id = 2, r_propiedad_id = Some 7, r_fecha_inicio = ''2024-10-18'',
       r_fecha_fin = ''2024-10-22'', r_huesped = ''Luis'', r_correo = None, r_telefono = None,
       r_estado = Some ''cancelada'', r_precio_total = None \<rparr>"

definition ejemplo_reserva_completada :: reserva where
  "ejemplo_reserva_completada =
     \<lparr> r_id = 3, r_propiedad_id = Some 7, r_fecha_inicio = ''2024-11-01'',
       r_fecha_fin = ''2024-11-05'', r_huesped = ''Eva'', r_correo = None, r_telefono = None,
       r_estado = Some ''completada'', r_precio_total = None \<rparr>"

definition ejemplo_mensaje_1 :: mensaje where
  "ejemplo_mensaje_1 =
     \<lparr> m_id = 1, m_remitente = Some ''ana@example.com'', m_asunto = Some ''Reserva'',
       m_cuerpo = Some ''Hola'', m_fecha_recibido = Some ''2024-10-01 10:00:00'',
       m_respondido = Some 0, m_respuesta = None,
       m_motivo_no_respuesta = Some ''requiere revision'' \<rparr>"

definition ejemplo_mensaje_2 :: mensaje where
  "ejemplo_mensaje_2 =
     \<lparr> m_id = 2, m_remitente = Some ''luis@example.com'', m_asunto = Some ''Consulta'',
       m_cuerpo = Some ''Buenas'', m_fecha_recibido = Some ''2024-10-02 09:30:00'',
       m_respondido = Some 0, m_respuesta = None, m_motivo_no_respuesta = None \<rparr>"

section \<open>Properties of the SQL conditions\<close>

lemma sql_and_True [simp]: "sql_and a b = Some True \<longleftrightarrow> a = Some True \<and> b = Some True"
  by (cases "(a, b)" rule: sql_and.cases) auto

lemma sql_or_True [simp]: "sql_or a b = Some True \<longleftrightarrow> a = Some True \<or> b = Some True"
  by (cases "(a, b)" rule: sql_or.cases) auto

lemma sql_or_False [simp]: "sql_or a b = Some False \<longleftrightarrow> a = Some False \<and> b = Some False"
  by (cases "(a, b)" rule: sql_or.cases) auto

lemma sql_not_True [simp]: "sql_not a = Some True \<longleftrightarrow> a = Some False"
  by (cases a) auto

lemma sql_cmp_Some [simp]:
  "sql_eq (Some x) (Some y) = Some (x = y)"
  "sql_ne (Some x) (Some y) = Some (x \<noteq> y)"
  "sql_lt (Some u) (Some v) = Some (u < v)"
  "sql_le (Some u) (Some v) = Some (u \<le> v)"
  "sql_gt (Some u) (Some v) = Some (v < u)"
  "sql_ge (Some u) (Some v) = Some (v \<le> u)"
  by (simp_all add: sql_eq_def sql_ne_def sql_lt_def sql_le_def sql_gt_def sql_ge_def)

lemma sql_cmp_None [simp]:
  "sql_eq None b = None"
  "sql_ne None b = None"
  "sql_in None vs = None"
  "sql_in (Some x) vs = Some (x \<in> set vs)"
  by (simp_all add: sql_eq_def sql_ne_def sql_in_def)

section \<open>Availability\<close>

lemma sql_selected_primary:
  "sql_selected (disponibilidad_where (Some pid) (Some fi) (Some ff) r) \<longleftrightarrow>
     r_propiedad_id r = Some pid \<and>
     (r_estado r = Some ''confirmada'' \<or> r_estado r = Some ''pendiente'') \<and>
     \<not> (r_fecha_fin r < fi \<or> r_fecha_inicio r > ff)"
  by (cases "r_propiedad_id r"; cases "r_estado r")
     (auto simp: sql_selected_def disponibilidad_where_def)

lemma sql_selected_optimized:
  "sql_selected (disponibilidad_optimized_where (Some pid) (Some fi) (Some ff) r) \<longleftrightarrow>
     r_propiedad_id r = Some pid \<and>
     (\<exists>e. r_estado r = Some e \<and> e \<noteq> ''cancelada'') \<and>
     ((r_fecha_inicio r \<le> fi \<and> r_fecha_fin r > fi) \<or>
      (r_fecha_inicio r < ff \<and> r_fecha_fin r \<ge> ff) \<or>
      (r_fecha_inicio r \<ge> fi \<and> r_fecha_fin r \<le> ff))"
  by (cases "r_propiedad_id r"; cases "r_estado r")
     (auto simp: sql_selected_def disponibilidad_optimized_where_def)

text \<open>
  C1. \<open>verificar_disponibilidad\<close> returns true exactly when no reservation of the property
  in state \<open>confirmada\<close> or \<open>pendiente\<close> satisfies
  \<open>NOT (existing.fecha_fin < fecha_inicio OR existing.fecha_inicio > fecha_fin)\<close>. With one
  \<open>pendiente\<close> reservation from 2024-10-10 to 2024-10-15 it returns false for the request
  2024-10-12 to 2024-10-20 and false for the request 2024-10-05 to 2024-10-10, which only
  touches the reservation on its first day.
\<close>

theorem verificar_disponibilidad_spec:
  "(verificar_disponibilidad reservas (Some pid) (Some fi) (Some ff) \<longleftrightarrow>
      \<not> (\<exists>r \<in> set reservas.
            r_propiedad_id r = Some pid \<and>
            (r_estado r = Some ''confirmada'' \<or> r_estado r = Some ''pendiente'') \<and>
            \<not> (r_fecha_fin r < fi \<or> r_fecha_inicio r > ff)))
   \<and> (\<forall>r. r_propiedad_id r = Some pid \<and> r_estado r = Some ''pendiente'' \<and>
          r_fecha_inicio r = ''2024-10-10'' \<and> r_fecha_fin r = ''2024-10-15'' \<longrightarrow>
          \<not> verificar_disponibilidad [r] (Some pid) (Some ''2024-10-12'') (Some ''2024-10-20'') \<and>
          \<not> verificar_disponibilidad [r] (Some pid) (Some ''2024-10-05'') (Some ''2024-10-10''))"
proof (intro conjI allI impI)
  show "verificar_disponibilidad reservas (Some pid) (Some fi) (Some ff) \<longleftrightarrow>
      \<not> (\<exists>r \<in> set reservas.
            r_propiedad_id r = Some pid \<and>
            (r_estado r = Some ''confirmada'' \<or> r_estado r = Some ''pendiente'') \<and>
            \<not> (r_fecha_fin r < fi \<or> r_fecha_inicio r > ff))"
    unfolding verificar_disponibilidad_def Let_def length_0_conv filter_empty_conv
      sql_selected_primary by blast
next
  fix r :: reserva
  assume h: "r_propiedad_id r = Some pid \<and> r_estado r = Some ''pendiente'' \<and>
          r_fecha_inicio r = ''2024-10-10'' \<and> r_fecha_fin r = ''2024-10-15''"
  then show "\<not> verificar_disponibilidad [r] (Some pid) (Some ''2024-10-12'') (Some ''2024-10-20'')"
    by (simp add: verificar_disponibilidad_def sql_selected_primary)
  from h show "\<not> verificar_disponibilidad [r] (Some pid) (Some ''2024-10-05'') (Some ''2024-10-10'')"
    by (simp add: verificar_disponibilidad_def sql_selected_primary)
qed

theorem verificar_disponibilidad_spec_witness:
  "\<not> verificar_disponibilidad [ejemplo_reserva] (Some 7) (Some ''2024-10-12'') (Some ''2024-10-20'')
   \<and> \<not> verificar_disponibilidad [ejemplo_reserva] (Some 7) (Some ''2024-10-05'') (Some ''2024-10-10'')
   \<and> verificar_disponibilidad [ejemplo_reserva] (Some 7) (Some ''2024-10-16'') (Some ''2024-10-20'')
   \<and> verificar_disponibilidad [ejemplo_reserva] (Some 8) (Some ''2024-10-12'') (Some ''2024-10-20'')"
  using verificar_disponibilidad_spec [of "[ejemplo_reserva]" 7 "''2024-10-16''" "''2024-10-20''"]
        verificar_disponibilidad_spec [of "[ejemplo_reserva]" 8 "''2024-10-12''" "''2024-10-20''"]
        verificar_disponibilidad_spec [of "[ejemplo_reserva]" 7 "''2024-10-12''" "''2024-10-20''"]
  by (simp add: ejemplo_reserva_def)


lemma overlap_clauses_iff:
  fixes a b qi qf :: "'a::linorder"
  assumes "a \<le> b" and "qi \<le> qf" and "b \<noteq> qi" and "a \<noteq> qf"
  shows "((a \<le> qi \<and> qi < b) \<or> (a < qf \<and> qf \<le> b) \<or> (qi \<le> a \<and> b \<le> qf))
           \<longleftrightarrow> \<not> (b < qi \<or> qf < a)"
  using assms by auto

text \<open>
  C4, as the claim states it, fails: on a request that touches a \<open>pendiente\<close> reservation
  only on its first day, the primary check reports a conflict and the optimized check,
  run on an empty cache, reports the property available.
\<close>

theorem disponibilidad_optimized_differs:
  "fst (verificar_disponibilidad_optimized [ejemplo_reserva] Map.empty 0 0 7
          ''2024-10-05'' ''2024-10-10'')
     \<noteq> PyBool (verificar_disponibilidad [ejemplo_reserva] (Some 7)
          (Some ''2024-10-05'') (Some ''2024-10-10''))"
  by (simp add: verificar_disponibilidad_optimized_def verificar_disponibilidad_def cache_get_def
        sql_selected_optimized sql_selected_primary ejemplo_reserva_def)

text \<open>
  The two checks also read the state column differently: a reservation in a state other
  than \<open>confirmada\<close>, \<open>pendiente\<close> and \<open>cancelada\<close> blocks the optimized check only.
\<close>

lemma disponibilidad_optimized_differs_estado:
  "fst (verificar_disponibilidad_optimized [ejemplo_reserva_completada] Map.empty 0 0 7
          ''2024-11-02'' ''2024-11-03'') = PyBool False
   \<and> verificar_disponibilidad [ejemplo_reserva_completada] (Some 7)
          (Some ''2024-11-02'') (Some ''2024-11-03'')"
  by (simp add: verificar_disponibilidad_optimized_def verificar_disponibilidad_def cache_get_def
        sql_selected_optimized sql_selected_primary ejemplo_reserva_completada_def)

text \<open>
  C4, amended. Let every reservation of the property be in state \<open>confirmada\<close>,
  \<open>pendiente\<close> or \<open>cancelada\<close> (or have no state), let every \<open>confirmada\<close> or \<open>pendiente\<close>
  reservation of the property start no later than it ends, let the request start no later
  than it ends, and let no such reservation end on the first day of the request or start
  on its last day. Then the optimized check, run on an empty cache, returns the boolean
  that the primary check returns.
\<close>

theorem disponibilidad_optimized_agrees:
  assumes estados: "\<forall>r \<in> set reservas. r_propiedad_id r = Some pid \<longrightarrow>
             r_estado r \<in> {None, Some ''confirmada'', Some ''pendiente'', Some ''cancelada''}"
    and filas: "\<forall>r \<in> set reservas. r_propiedad_id r = Some pid \<longrightarrow>
             r_estado r \<in> {Some ''confirmada'', Some ''pendiente''} \<longrightarrow>
             r_fecha_inicio r \<le> r_fecha_fin r"
    and consulta: "fi \<le> ff"
    and sin_borde: "\<forall>r \<in> set reservas. r_propiedad_id r = Some pid \<longrightarrow>
             r_estado r \<in> {Some ''confirmada'', Some ''pendiente''} \<longrightarrow>
             r_fecha_fin r \<noteq> fi \<and> r_fecha_inicio r \<noteq> ff"
  shows "fst (verificar_disponibilidad_optimized reservas Map.empty t_get t_set pid fi ff)
           = PyBool (verificar_disponibilidad reservas (Some pid) (Some fi) (Some ff))"
proof -
  have same: "sql_selected (disponibilidad_optimized_where (Some pid) (Some fi) (Some ff) r)
                \<longleftrightarrow> sql_selected (disponibilidad_where (Some pid) (Some fi) (Some ff) r)"
    if r: "r \<in> set reservas" for r
  proof (cases "r_propiedad_id r = Some pid")
    case False
    then show ?thesis by (simp add: sql_selected_optimized sql_selected_primary)
  next
    case True
    from estados r True have e: "r_estado r \<in> {None, Some ''confirmada'', Some ''pendiente'',
      Some ''cancelada''}" by blast
    have st: "(\<exists>e. r_estado r = Some e \<and> e \<noteq> ''cancelada'') \<longleftrightarrow>
              (r_estado r = Some ''confirmada'' \<or> r_estado r = Some ''pendiente'')"
      using e by auto
    show ?thesis
    proof (cases "r_estado r \<in> {Some ''confirmada'', Some ''pendiente''}")
      case False
      then show ?thesis
        unfolding sql_selected_optimized sql_selected_primary st by blast
    next
      case activa: True
      from filas r True activa have w: "r_fecha_inicio r \<le> r_fecha_fin r" by blast
      from sin_borde r True activa have b: "r_fecha_fin r \<noteq> fi" "r_fecha_inicio r \<noteq> ff"
        by blast+
      show ?thesis
        unfolding sql_selected_optimized sql_selected_primary st
        using overlap_clauses_iff [OF w consulta b] True by blast
    qed
  qed
  have "filter (\<lambda>r. sql_selected (disponibilidad_optimized_where (Some pid) (Some fi) (Some ff) r))
          reservas
        = filter (\<lambda>r. sql_selected (disponibilidad_where (Some pid) (Some fi) (Some ff) r))
          reservas"
    by (rule filter_cong) (simp_all add: same)
  then show ?thesis
    by (simp add: verificar_disponibilidad_optimized_def verificar_disponibilidad_def
          cache_get_def Let_def)
qed

theorem disponibilidad_optimized_agrees_witness:
  "fst (verificar_disponibilidad_optimized [ejemplo_reserva, ejemplo_reserva_cancelada]
            Map.empty 0 0 7 ''2024-10-12'' ''2024-10-20'') = PyBool False
   \<and> \<not> verificar_disponibilidad [ejemplo_reserva, ejemplo_reserva_cancelada] (Some 7)
            (Some ''2024-10-12'') (Some ''2024-10-20'')"
proof -
  have h1: "\<forall>r \<in> set [ejemplo_reserva, ejemplo_reserva_cancelada]. r_propiedad_id r = Some 7 \<longrightarrow>
       r_estado r \<in> {None, Some ''confirmada'', Some ''pendiente'', Some ''cancelada''}"
    by (simp add: ejemplo_reserva_def ejemplo_reserva_cancelada_def)
  have h2: "\<forall>r \<in> set [ejemplo_reserva, ejemplo_reserva_cancelada]. r_propiedad_id r = Some 7 \<longrightarrow>
       r_estado r \<in> {Some ''confirmada'', Some ''pendiente''} \<longrightarrow>
       r_fecha_inicio r \<le> r_fecha_fin r"
    by (simp add: ejemplo_reserva_def ejemplo_reserva_cancelada_def)
  have h3: "''2024-10-12'' \<le> ''2024-10-20''" by simp
  have h4: "\<forall>r \<in> set [ejemplo_reserva, ejemplo_reserva_cancelada]. r_propiedad_id r = Some 7 \<longrightarrow>
       r_estado r \<in> {Some ''confirmada'', Some ''pendiente''} \<longrightarrow>
       r_fecha_fin r \<noteq> ''2024-10-12'' \<and> r_fecha_inicio r \<noteq> ''2024-10-20''"
    by (simp add: ejemplo_reserva_def ejemplo_reserva_cancelada_def)
  have p: "\<not> verificar_disponibilidad [ejemplo_reserva, ejemplo_reserva_cancelada] (Some 7)
            (Some ''2024-10-12'') (Some ''2024-10-20'')"
    by (simp add: verificar_disponibilidad_def sql_selected_primary
          ejemplo_reserva_def ejemplo_reserva_cancelada_def)
  from disponibilidad_optimized_agrees [OF h1 h2 h3 h4, of 0 0] p
  show ?thesis by simp
qed

section \<open>Marking a message as answered\<close>

text \<open>
  C10. \<open>marcar_mensaje_respondido\<close> sets \<open>respondido\<close> to 1 and \<open>respuesta\<close> to the given
  text on every row with the given id; with a falsy \<open>motivo_no_respuesta\<close> (\<open>None\<close> or the
  empty text) the row keeps the \<open>motivo_no_respuesta\<close> it had; no other column of such a
  row and no other row changes, and no row is added or removed.
\<close>

theorem marcar_mensaje_respondido_frame:
  "length (marcar_mensaje_respondido mensajes mensaje_id respuesta motivo) = length mensajes
   \<and> (\<forall>k < length mensajes.
        (m_id (mensajes ! k) \<noteq> mensaje_id \<longrightarrow>
           marcar_mensaje_respondido mensajes mensaje_id respuesta motivo ! k = mensajes ! k)
      \<and> (m_id (mensajes ! k) = mensaje_id \<longrightarrow>
           m_respondido (marcar_mensaje_respondido mensajes mensaje_id respuesta motivo ! k) = Some 1
         \<and> m_respuesta (marcar_mensaje_respondido mensajes mensaje_id respuesta motivo ! k) = respuesta
         \<and> (\<not> truthy_text motivo \<longrightarrow>
              m_motivo_no_respuesta (marcar_mensaje_respondido mensajes mensaje_id respuesta motivo ! k)
                = m_motivo_no_respuesta (mensajes ! k))
         \<and> (truthy_text motivo \<longrightarrow>
              m_motivo_no_respuesta (marcar_mensaje_respondido mensajes mensaje_id respuesta motivo ! k)
                = motivo)
         \<and> m_id (marcar_mensaje_respondido mensajes mensaje_id respuesta motivo ! k)
             = m_id (mensajes ! k)
         \<and> m_remitente (marcar_mensaje_respondido mensajes mensaje_id respuesta motivo ! k)
             = m_remitente (mensajes ! k)
         \<and> m_asunto (marcar_mensaje_respondido mensajes mensaje_id respuesta motivo ! k)
             = m_asunto (mensajes ! k)
         \<and> m_cuerpo (marcar_mensaje_respondido mensajes mensaje_id respuesta motivo ! k)
             = m_cuerpo (mensajes ! k)
         \<and> m_fecha_recibido (marcar_mensaje_respondido mensajes mensaje_id respuesta motivo ! k)
             = m_fecha_recibido (mensajes ! k)))"
  by (simp add: marcar_mensaje_respondido_def)

theorem marcar_mensaje_respondido_frame_witness:
  "marcar_mensaje_respondido [ejemplo_mensaje_1, ejemplo_mensaje_2] 1 (Some ''Gracias'') None
     = [ejemplo_mensaje_1\<lparr>m_respondido := Some 1, m_respuesta := Some ''Gracias''\<rparr>,
        ejemplo_mensaje_2]
   \<and> m_motivo_no_respuesta
       (marcar_mensaje_respondido [ejemplo_mensaje_1, ejemplo_mensaje_2] 1 (Some ''Gracias'') None ! 0)
       = Some ''requiere revision''
   \<and> m_motivo_no_respuesta
       (marcar_mensaje_respondido [ejemplo_mensaje_1, ejemplo_mensaje_2] 1 (Some ''Gracias'') (Some []) ! 0)
       = Some ''requiere revision''"
  using marcar_mensaje_respondido_frame
          [of "[ejemplo_mensaje_1, ejemplo_mensaje_2]" 1 "Some ''Gracias''" None]
        marcar_mensaje_respondido_frame
          [of "[ejemplo_mensaje_1, ejemplo_mensaje_2]" 1 "Some ''Gracias''" "Some []"]
  by (simp add: marcar_mensaje_respondido_def truthy_text_def ejemplo_mensaje_1_def
        ejemplo_mensaje_2_def)

section \<open>Conversation ids\<close>

lemma py_isspace_lower [simp]: "py_isspace (py_lower_char c) = py_isspace c"
proof -
  have "of_char c < (256::nat)" by simp
  then show ?thesis
    by (auto simp: py_isspace_def py_lower_char_def Let_def)
qed

lemma length_md5_digest: "length (md5_digest msg) = 16"
  by (simp add: md5_digest_def le_bytes4_def split: prod.splits)

lemma length_hex: "length (concat (map hex_byte bs)) = 2 * length bs"
  by (induction bs) (simp_all add: hex_byte_def)

lemma length_md5_hexdigest: "length (md5_hexdigest msg) = 32"
  by (simp add: md5_hexdigest_def length_hex length_md5_digest)

lemma hex_char_is_hex: "n < 16 \<Longrightarrow> is_hex_char (hex_char n)"
  unfolding hex_char_def is_hex_char_def
  by (rule nth_mem) simp

lemma md5_digest_bytes: "\<forall>b \<in> set (md5_digest msg). 0 \<le> b \<and> b < 256"
  by (auto simp: md5_digest_def le_bytes4_def split: prod.splits)

lemma hex_bytes_are_hex:
  "\<forall>b \<in> set bs. 0 \<le> b \<and> b < 256 \<Longrightarrow> list_all is_hex_char (concat (map hex_byte bs))"
  by (induction bs) (auto simp: hex_byte_def hex_char_is_hex)

lemma md5_hexdigest_is_hex: "list_all is_hex_char (md5_hexdigest msg)"
  unfolding md5_hexdigest_def
  by (rule hex_bytes_are_hex) (rule md5_digest_bytes)

lemma bol_no_match: "match_at ic (Seq Bol r) (Some c) s = None"
  by (simp add: match_at_def)

lemma re_sub_from_bol: "re_sub_from ic (Seq Bol r) repl (Some c) k s = drop k s"
  by (induction s arbitrary: c k) (auto simp: bol_no_match drop_Cons')

lemma re_sub_bol:
  "re_sub ic (Seq Bol r) [] t =
     (case match_at ic (Seq Bol r) None t of
        None \<Rightarrow> t
      | Some (s', g) \<Rightarrow> drop (length t - length s') t)"
  by (cases t) (auto simp: re_sub_def re_sub_from_bol Let_def drop_Cons' Suc_diff_le split: option.splits)


lemma ms_many_space:
  "ms ic (Many [CSpace] 0 None) (p, u, g) =
     (advance p u (length (takeWhile py_isspace u)), dropWhile py_isspace u, g)
       # map (\<lambda>n. (advance p u n, drop n u, g)) (rev [0..<length (takeWhile py_isspace u)])"
proof -
  have "in_csets [CSpace] = py_isspace"
    by (rule ext) (simp add: in_csets_def)
  then show ?thesis by (simp add: Let_def dropWhile_eq_drop)
qed

lemma match_re:
  "match_at False prefix_pattern None (''re:'' @ u) = Some (dropWhile py_isspace u, [(1, ''re'')])"
  by (simp add: match_at_def prefix_pattern_def ms_many_space del: ms.simps(9))

lemma match_fw:
  "match_at False prefix_pattern None (''fw:'' @ u) = Some (dropWhile py_isspace u, [(1, ''fw'')])"
  by (simp add: match_at_def prefix_pattern_def ms_many_space del: ms.simps(9))

lemma match_fwd:
  "match_at False prefix_pattern None (''fwd:'' @ u) = Some (dropWhile py_isspace u, [(1, ''fwd'')])"
  by (simp add: match_at_def prefix_pattern_def ms_many_space del: ms.simps(9))

lemma match_none:
  "\<not> has_reply_prefix t \<Longrightarrow> match_at False prefix_pattern None t = None"
  by (auto simp: has_reply_prefix_def match_at_def prefix_pattern_def ms_many_space
        simp del: ms.simps(9) split: list.splits if_splits)

lemma length_dropWhile_le_diff:
  "drop (length (pre @ u) - length (dropWhile P u)) (pre @ u) = dropWhile P u"
proof -
  have split: "pre @ u = (pre @ takeWhile P u) @ dropWhile P u" by simp
  then have "length (pre @ u) - length (dropWhile P u) = length (pre @ takeWhile P u)"
    by (metis add_diff_cancel_right' length_append)
  then show ?thesis
    by (metis split append_eq_conv_conj)
qed

lemma re_sub_prefix:
  "re_sub False prefix_pattern [] t =
     (case match_at False prefix_pattern None t of
        None \<Rightarrow> t
      | Some (s', g) \<Rightarrow> drop (length t - length s') t)"
  unfolding prefix_pattern_def by (rule re_sub_bol)

lemma clean_with_prefix:
  assumes "w = ''re:'' \<or> w = ''fw:'' \<or> w = ''fwd:''"
  shows "re_sub False prefix_pattern [] (w @ u) = dropWhile py_isspace u"
proof -
  have m: "match_at False prefix_pattern None (w @ u) = Some (dropWhile py_isspace u, [(1, butlast w)])"
    using assms match_re [of u] match_fw [of u] match_fwd [of u] by auto
  have "re_sub False prefix_pattern [] (w @ u)
          = drop (length (w @ u) - length (dropWhile py_isspace u)) (w @ u)"
    by (simp only: re_sub_prefix m option.case prod.case)
  then show ?thesis by (simp only: length_dropWhile_le_diff)
qed

lemma clean_without_prefix:
  "\<not> has_reply_prefix t \<Longrightarrow> re_sub False prefix_pattern [] t = t"
  by (simp add: re_sub_prefix match_none)

lemma rstrip_Cons:
  "rstrip (c # u) =
     (if \<forall>x \<in> set u. py_isspace x then (if py_isspace c then [] else [c]) else c # rstrip u)"
  by (simp add: rstrip_def dropWhile_append)

lemma lstrip_rstrip: "dropWhile py_isspace (rstrip u) = rstrip (dropWhile py_isspace u)"
proof (induction u)
  case Nil
  then show ?case by (simp add: rstrip_def)
next
  case (Cons c u)
  show ?case
  proof (cases "py_isspace c")
    case True
    show ?thesis
    proof (cases "\<forall>x \<in> set u. py_isspace x")
      case all: True
      then have d: "dropWhile py_isspace u = []" by simp
      have "rstrip (dropWhile py_isspace u) = []"
        unfolding d by (simp add: rstrip_def)
      with True all show ?thesis by (simp add: rstrip_Cons)
    next
      case False
      with True Cons show ?thesis by (auto simp: rstrip_Cons)
    qed
  next
    case False
    then show ?thesis by (simp add: rstrip_Cons)
  qed
qed

lemma py_strip_rstrip: "py_strip u = rstrip (dropWhile py_isspace u)"
  by (simp add: py_strip_def rstrip_def)

lemma rstrip_spaces_append:
  assumes "\<forall>x \<in> set ws. py_isspace x"
  shows "dropWhile py_isspace (rstrip (ws @ u)) = rstrip (dropWhile py_isspace u)"
proof -
  have "dropWhile py_isspace (rstrip (ws @ u)) = rstrip (dropWhile py_isspace (ws @ u))"
    by (rule lstrip_rstrip)
  also have "dropWhile py_isspace (ws @ u) = dropWhile py_isspace u"
    using assms by (simp add: dropWhile_append)
  finally show ?thesis .
qed

lemma strip_prefixed:
  assumes ws1: "\<forall>x \<in> set ws1. py_isspace x"
    and w: "w \<noteq> []" "\<not> py_isspace (hd w)" "\<not> py_isspace (last w)"
  shows "py_strip (ws1 @ w @ u) = w @ rstrip u"
proof -
  have "dropWhile py_isspace (ws1 @ w @ u) = w @ u"
    using ws1 w by (cases w) (simp_all add: dropWhile_append)
  moreover have "rstrip (w @ u) = w @ rstrip u"
  proof -
    have "dropWhile py_isspace (rev w) = rev w"
      using w by (cases w rule: rev_cases) simp_all
    then show ?thesis
      by (simp add: rstrip_def dropWhile_append)
  qed
  ultimately show ?thesis by (simp add: py_strip_rstrip)
qed

lemma same_up_to_case_lower: "same_up_to_case s t \<Longrightarrow> py_lower s = py_lower t"
  unfolding same_up_to_case_def py_lower_def
  by (induction s t rule: list_all2_induct) simp_all

lemma generate_conversation_id_eq:
  "generate_conversation_id r a = get_conversation_id r a"
  by (simp add: generate_conversation_id_def get_conversation_id_def conversation_key_def
        clean_subject_def)

lemma clean_subject_prefixed:
  assumes p: "is_reply_prefix w"
    and ws1: "list_all py_isspace ws1"
    and ws2: "list_all py_isspace ws2"
    and a: "\<not> has_reply_prefix (py_strip (py_lower a))"
  shows "clean_subject (ws1 @ w @ ws2 @ a) = clean_subject a"
proof -
  let ?w = "py_lower w"
  have w3: "?w = ''re:'' \<or> ?w = ''fw:'' \<or> ?w = ''fwd:''"
    using p by (simp add: is_reply_prefix_def)
  have l1: "\<forall>x \<in> set (py_lower ws1). py_isspace x"
    using ws1 by (simp add: py_lower_def list_all_iff)
  have l2: "\<forall>x \<in> set (py_lower ws2). py_isspace x"
    using ws2 by (simp add: py_lower_def list_all_iff)
  have sp: "\<not> py_isspace CHR ''r''" "\<not> py_isspace CHR ''f''" "\<not> py_isspace CHR '':''"
    by (simp_all add: py_isspace_def)
  have wne: "?w \<noteq> []" "\<not> py_isspace (hd ?w)" "\<not> py_isspace (last ?w)"
    using w3 sp by auto
  have "py_lower (ws1 @ w @ ws2 @ a) = py_lower ws1 @ ?w @ (py_lower ws2 @ py_lower a)"
    by (simp add: py_lower_def)
  then have "py_strip (py_lower (ws1 @ w @ ws2 @ a)) = ?w @ rstrip (py_lower ws2 @ py_lower a)"
    using strip_prefixed [OF l1 wne] by simp
  then have "clean_subject (ws1 @ w @ ws2 @ a)
               = dropWhile py_isspace (rstrip (py_lower ws2 @ py_lower a))"
    using clean_with_prefix [OF w3] by (simp add: clean_subject_def)
  also have "\<dots> = py_strip (py_lower a)"
    using rstrip_spaces_append [OF l2] by (simp add: py_strip_rstrip)
  also have "\<dots> = clean_subject a"
    using clean_without_prefix [OF a] by (simp add: clean_subject_def)
  finally show ?thesis .
qed

text \<open>
  C2, amended. \<open>get_conversation_id\<close> and \<open>generate_conversation_id\<close> are the same function
  of sender and subject; the id has 12 characters, each a lower-case hexadecimal digit;
  it does not change when letters of the sender or of the subject change case; and it
  does not change when a prefix \<open>re:\<close>, \<open>fw:\<close> or \<open>fwd:\<close> in any case, with white space
  before and after it, is put in front of a subject that, lowered and stripped, does
  not itself begin with one of these prefixes.
\<close>

theorem get_conversation_id_invariance:
  "length (get_conversation_id r a) = 12
   \<and> list_all is_hex_char (get_conversation_id r a)
   \<and> generate_conversation_id r a = get_conversation_id r a
   \<and> (same_up_to_case r r' \<longrightarrow> get_conversation_id r' a = get_conversation_id r a)
   \<and> (same_up_to_case a a' \<longrightarrow> get_conversation_id r a' = get_conversation_id r a)
   \<and> (is_reply_prefix w \<and> list_all py_isspace ws1 \<and> list_all py_isspace ws2
        \<and> \<not> has_reply_prefix (py_strip (py_lower a))
        \<longrightarrow> get_conversation_id r (ws1 @ w @ ws2 @ a) = get_conversation_id r a)"
proof (intro conjI impI)
  show "length (get_conversation_id r a) = 12"
    by (simp add: get_conversation_id_def length_md5_hexdigest)
  show "list_all is_hex_char (get_conversation_id r a)"
    using md5_hexdigest_is_hex [of "utf8_encode (conversation_key r a)"]
    by (auto simp: get_conversation_id_def list_all_iff dest: in_set_takeD)
  show "generate_conversation_id r a = get_conversation_id r a"
    by (rule generate_conversation_id_eq)
  show "get_conversation_id r' a = get_conversation_id r a" if "same_up_to_case r r'"
    using same_up_to_case_lower [OF that]
    by (simp add: get_conversation_id_def conversation_key_def)
  show "get_conversation_id r a' = get_conversation_id r a" if "same_up_to_case a a'"
    using same_up_to_case_lower [OF that]
    by (simp add: get_conversation_id_def conversation_key_def clean_subject_def)
  show "get_conversation_id r (ws1 @ w @ ws2 @ a) = get_conversation_id r a"
    if "is_reply_prefix w \<and> list_all py_isspace ws1 \<and> list_all py_isspace ws2
        \<and> \<not> has_reply_prefix (py_strip (py_lower a))"
    using that clean_subject_prefixed [of w ws1 ws2 a]
    by (simp add: get_conversation_id_def conversation_key_def)
qed

theorem get_conversation_id_invariance_witness:
  "get_conversation_id ''Maria@Gmail.com'' ''Re: Reserva Casa Playa''
     = get_conversation_id ''maria@gmail.com'' ''reserva casa playa''"
proof -
  have c1: "same_up_to_case ''maria@gmail.com'' ''Maria@Gmail.com''"
    by code_simp
  have c2: "same_up_to_case ''reserva casa playa'' ''Reserva Casa Playa''"
    by code_simp
  have p: "is_reply_prefix ''Re:''"
    by code_simp
  have s: "list_all py_isspace []" "list_all py_isspace '' ''"
    by code_simp+
  have n: "\<not> has_reply_prefix (py_strip (py_lower ''Reserva Casa Playa''))"
    by code_simp
  have "get_conversation_id ''Maria@Gmail.com'' ([] @ ''Re:'' @ '' '' @ ''Reserva Casa Playa'')
          = get_conversation_id ''Maria@Gmail.com'' ''Reserva Casa Playa''"
    using get_conversation_id_invariance
            [of "''Maria@Gmail.com''" "''Reserva Casa Playa''" _ _ "''Re:''" "[]" "'' ''"] p s n
    by blast
  moreover have "get_conversation_id ''Maria@Gmail.com'' ''Reserva Casa Playa''
          = get_conversation_id ''maria@gmail.com'' ''Reserva Casa Playa''"
    using get_conversation_id_invariance
            [of "''maria@gmail.com''" "''Reserva Casa Playa''" "''Maria@Gmail.com''"] c1
    by blast
  moreover have "get_conversation_id ''maria@gmail.com'' ''Reserva Casa Playa''
          = get_conversation_id ''maria@gmail.com'' ''reserva casa playa''"
    using get_conversation_id_invariance
            [of "''maria@gmail.com''" "''reserva casa playa''" _ "''Reserva Casa Playa''"] c2
    by blast
  ultimately show ?thesis by simp
qed

text \<open>
  C2, as the claim states it, fails: the pattern removes one leading prefix only, so
  putting \<open>Fwd:\<close> in front of the subject \<open>Re: Reserva\<close> changes the id.
\<close>

theorem get_conversation_id_nested_prefix:
  "get_conversation_id ''ana@example.com'' (''Fwd: '' @ ''Re: Reserva'')
     \<noteq> get_conversation_id ''ana@example.com'' ''Re: Reserva''"
  by code_simp

section \<open>Conversation store\<close>

lemma row_dict_set_column:
  assumes "field \<in> set allowed_fields"
  shows "row_dict ((set_column field v c)\<lparr>c_updated_at := now\<rparr>) col =
     (if col = field then Some v
      else if col = ''updated_at'' then Some (SqlText now)
      else row_dict c col)"
  using assms unfolding allowed_fields_def list.set insert_iff empty_iff
  by (elim disjE FalseE) (simp_all add: set_column_def row_dict_def)

lemma c_id_set_column [simp]: "c_id (set_column field v c) = c_id c"
  by (simp add: set_column_def)

lemma find_map_same_id:
  assumes "\<And>c. c_id (f c) = c_id c"
  shows "find (\<lambda>c. c_id c = i) (map f cs) = map_option f (find (\<lambda>c. c_id c = i) cs)"
  by (induction cs) (simp_all add: assms)

lemma required_subset_allowed: "f \<in> set required_fields \<Longrightarrow> f \<in> set allowed_fields"
  unfolding required_fields_def allowed_fields_def list.set insert_iff empty_iff
  by (elim disjE FalseE) simp_all

lemma get_missing_fields_None:
  "get_conversation cs i = None \<Longrightarrow> get_missing_fields cs i = required_fields"
  by (simp add: get_missing_fields_def required_fields_def)

lemma get_missing_fields_Some:
  "get_conversation cs i = Some d \<Longrightarrow>
   get_missing_fields cs i = filter (\<lambda>f. \<not> py_truthy (dict_get d f)) required_fields"
  by (simp add: get_missing_fields_def required_fields_def Let_def)

lemma get_missing_fields_subset: "set (get_missing_fields cs i) \<subseteq> set required_fields"
  by (cases "get_conversation cs i")
     (auto simp: get_missing_fields_None get_missing_fields_Some)

text \<open>One update, seen through \<open>get_conversation\<close>.\<close>

lemma get_conversation_update:
  assumes "field \<in> set allowed_fields"
  shows "\<exists>cs'. update_conversation_field cs now i field v = Inr cs' \<and>
           (case get_conversation cs i of
              None \<Rightarrow> get_conversation cs' i = None
            | Some d \<Rightarrow> \<exists>d'. get_conversation cs' i = Some d' \<and>
                (\<forall>col. dict_get d' col =
                   (if col = field then v
                    else if col = ''updated_at'' then SqlText now
                    else dict_get d col)))"
proof -
  let ?upd = "\<lambda>c. if c_id c = i then (set_column field v c)\<lparr>c_updated_at := now\<rparr> else c"
  have u: "update_conversation_field cs now i field v = Inr (map ?upd cs)"
    using assms by (simp add: update_conversation_field_def)
  have f: "find (\<lambda>c. c_id c = i) (map ?upd cs) = map_option ?upd (find (\<lambda>c. c_id c = i) cs)"
    by (rule find_map_same_id) simp
  show ?thesis
  proof (cases "find (\<lambda>c. c_id c = i) cs")
    case None
    then show ?thesis using u f by (simp add: get_conversation_def)
  next
    case (Some r)
    then have "c_id r = i" by (auto simp: find_Some_iff)
    then have "get_conversation (map ?upd cs) i
                 = Some (row_dict ((set_column field v r)\<lparr>c_updated_at := now\<rparr>))"
      using f Some by (simp add: get_conversation_def)
    then show ?thesis using u Some
      by (simp add: get_conversation_def dict_get_def row_dict_set_column [OF assms])
  qed
qed

lemma falsy_iff: "\<not> py_truthy x \<longleftrightarrow> x \<in> {SqlNull, SqlInt 0, SqlText []}"
  by (cases x) simp_all

lemma updated_at_not_required: "f \<in> set required_fields \<Longrightarrow> f \<noteq> ''updated_at''"
  unfolding required_fields_def list.set insert_iff empty_iff
  by (elim disjE FalseE) simp_all

lemma update_step:
  assumes a: "field \<in> set allowed_fields" and g: "get_conversation cs i = Some d"
  shows "\<exists>cs' d'. update_conversation_field cs now i field v = Inr cs' \<and>
           get_conversation cs' i = Some d' \<and>
           get_missing_fields cs' i =
             filter (\<lambda>f. \<not> py_truthy (if f = field then v else dict_get d f)) required_fields \<and>
           is_confirmed cs' i = (if field = ''confirmacion'' then v = sql_si else is_confirmed cs i)"
proof -
  from get_conversation_update [OF a, of cs now i v] g
  obtain cs' d' where u: "update_conversation_field cs now i field v = Inr cs'"
    and g': "get_conversation cs' i = Some d'"
    and d': "\<And>col. dict_get d' col =
                   (if col = field then v
                    else if col = ''updated_at'' then SqlText now
                    else dict_get d col)"
    by auto
  have m: "get_missing_fields cs' i =
             filter (\<lambda>f. \<not> py_truthy (if f = field then v else dict_get d f)) required_fields"
    unfolding get_missing_fields_Some [OF g']
    by (rule filter_cong) (simp_all add: d' updated_at_not_required)
  have c: "is_confirmed cs' i = (if field = ''confirmacion'' then v = sql_si else is_confirmed cs i)"
    by (simp add: is_confirmed_def g g' d' sql_si_def)
  from u g' m c show ?thesis by blast
qed

lemma update_fields_missing:
  assumes "\<forall>(f, v) \<in> set ups. f \<in> set allowed_fields \<and> (f \<in> set required_fields \<longrightarrow> py_truthy v)"
    and "get_conversation cs i \<noteq> None"
  shows "\<exists>cs'. update_fields cs now i ups = Inr cs' \<and> get_conversation cs' i \<noteq> None \<and>
           set (get_missing_fields cs' i) \<subseteq> set (get_missing_fields cs i) - fst ` set ups \<and>
           (''confirmacion'' \<notin> fst ` set ups \<longrightarrow> is_confirmed cs' i = is_confirmed cs i)"
  using assms
proof (induction ups arbitrary: cs)
  case Nil
  then show ?case by simp
next
  case (Cons p ups)
  obtain f v where p: "p = (f, v)" by (cases p)
  from Cons.prems(2) obtain d where g: "get_conversation cs i = Some d" by auto
  from Cons.prems(1) p have a: "f \<in> set allowed_fields"
    and t: "f \<in> set required_fields \<longrightarrow> py_truthy v" by auto
  from update_step [OF a g, of now v]
  obtain cs1 d1 where u: "update_conversation_field cs now i f v = Inr cs1"
    and g1: "get_conversation cs1 i = Some d1"
    and m1: "get_missing_fields cs1 i =
             filter (\<lambda>x. \<not> py_truthy (if x = f then v else dict_get d x)) required_fields"
    and c1: "is_confirmed cs1 i = (if f = ''confirmacion'' then v = sql_si else is_confirmed cs i)"
    by blast
  have sub1: "set (get_missing_fields cs1 i) \<subseteq> set (get_missing_fields cs i) - {f}"
    using t by (auto simp: m1 get_missing_fields_Some [OF g])
  from Cons.prems(1) have rest: "\<forall>(f, v) \<in> set ups. f \<in> set allowed_fields \<and>
      (f \<in> set required_fields \<longrightarrow> py_truthy v)" by simp
  from Cons.IH [OF rest, of cs1] g1
  obtain cs' where u': "update_fields cs1 now i ups = Inr cs'"
    and g': "get_conversation cs' i \<noteq> None"
    and sub': "set (get_missing_fields cs' i) \<subseteq> set (get_missing_fields cs1 i) - fst ` set ups"
    and c': "''confirmacion'' \<notin> fst ` set ups \<longrightarrow> is_confirmed cs' i = is_confirmed cs1 i"
    by auto
  have "update_fields cs now i (p # ups) = Inr cs'"
    using u u' p by simp
  moreover have "set (get_missing_fields cs' i) \<subseteq> set (get_missing_fields cs i) - fst ` set (p # ups)"
    using sub1 sub' p by auto
  moreover have "''confirmacion'' \<notin> fst ` set (p # ups) \<longrightarrow> is_confirmed cs' i = is_confirmed cs i"
    using c' c1 p by auto
  ultimately show ?case using g' by blast
qed

lemma find_append: "find P (xs @ ys) = (case find P xs of None \<Rightarrow> find P ys | Some x \<Rightarrow> Some x)"
  by (induction xs) simp_all

lemma get_conversation_created:
  assumes "get_conversation cs (get_conversation_id rem asu) = None"
  shows "create_or_update_conversation cs ts now rem asu =
           (get_conversation_id rem asu,
            cs @ [new_conversation (get_conversation_id rem asu) asu rem ts])
         \<and> get_conversation (cs @ [new_conversation (get_conversation_id rem asu) asu rem ts])
             (get_conversation_id rem asu)
             = Some (row_dict (new_conversation (get_conversation_id rem asu) asu rem ts))"
proof -
  let ?i = "get_conversation_id rem asu"
  from assms have n: "find (\<lambda>c. c_id c = ?i) cs = None"
    by (simp add: get_conversation_def split: option.splits)
  then have "find (\<lambda>c. c_id c = ?i) (cs @ [new_conversation ?i asu rem ts])
               = Some (new_conversation ?i asu rem ts)"
    by (simp add: find_append new_conversation_def)
  with n show ?thesis
    by (simp add: create_or_update_conversation_def get_conversation_def Let_def)
qed


lemma update_fields_confirmed:
  assumes "\<forall>(f, v) \<in> set ups. f \<in> set allowed_fields"
    and "get_conversation cs i \<noteq> None"
  shows "\<exists>cs'. update_fields cs now i ups = Inr cs' \<and> get_conversation cs' i \<noteq> None \<and>
           is_confirmed cs' i =
             (case map_of (rev ups) ''confirmacion'' of
                None \<Rightarrow> is_confirmed cs i
              | Some v \<Rightarrow> v = sql_si)"
  using assms
proof (induction ups arbitrary: cs)
  case Nil
  then show ?case by simp
next
  case (Cons p ups)
  obtain f v where p: "p = (f, v)" by (cases p)
  from Cons.prems(2) obtain d where g: "get_conversation cs i = Some d" by auto
  from Cons.prems(1) p have a: "f \<in> set allowed_fields" by auto
  from update_step [OF a g, of now v]
  obtain cs1 d1 where u: "update_conversation_field cs now i f v = Inr cs1"
    and g1: "get_conversation cs1 i = Some d1"
    and c1: "is_confirmed cs1 i = (if f = ''confirmacion'' then v = sql_si else is_confirmed cs i)"
    by blast
  from Cons.prems(1) have rest: "\<forall>(f, v) \<in> set ups. f \<in> set allowed_fields" by simp
  from Cons.IH [OF rest, of cs1] g1
  obtain cs' where u': "update_fields cs1 now i ups = Inr cs'"
    and g': "get_conversation cs' i \<noteq> None"
    and c': "is_confirmed cs' i =
             (case map_of (rev ups) ''confirmacion'' of
                None \<Rightarrow> is_confirmed cs1 i
              | Some v \<Rightarrow> v = sql_si)"
    by auto
  have "update_fields cs now i (p # ups) = Inr cs'"
    using u u' p by simp
  moreover have "is_confirmed cs' i =
             (case map_of (rev (p # ups)) ''confirmacion'' of
                None \<Rightarrow> is_confirmed cs i
              | Some v \<Rightarrow> v = sql_si)"
    unfolding c' c1 p by (simp add: map_add_def split: option.splits)
  ultimately show ?case using g' by blast
qed

lemma is_confirmed_None: "get_conversation cs j = None \<Longrightarrow> \<not> is_confirmed cs j"
  by (simp add: is_confirmed_def)

text \<open>
  C3. For an id without a conversation row, and for a conversation that
  \<open>create_or_update_conversation\<close> has just created, \<open>get_missing_fields\<close> returns
  \<open>nombre_cliente\<close>, \<open>propiedad\<close>, \<open>check_in\<close>, \<open>check_out\<close>, \<open>numero_huespedes\<close>,
  \<open>correo_cliente\<close> in this order; \<open>propiedad_id\<close> is never in its result; once the six
  fields have been set to truthy values with \<open>update_conversation_field\<close> it returns the
  empty list; \<open>is_confirmed\<close> is false for the new conversation and after these six
  updates, and true once \<open>confirmacion\<close> has been set to the text \<open>si\<close> with an accent.
  \<open>is_confirmed\<close> is false for an id without a row. After any sequence of updates of
  whitelisted fields with any values, \<open>is_confirmed\<close> is decided by the last value
  written to \<open>confirmacion\<close>: it is true exactly when that value is the text \<open>si\<close> with
  an accent, and what it was before when \<open>confirmacion\<close> was not written; so for a
  conversation just created it is true exactly when the last value written to
  \<open>confirmacion\<close> is that text.
\<close>

theorem get_missing_fields_lifecycle:
  "(get_conversation cs j = None \<longrightarrow>
      get_missing_fields cs j =
        [''nombre_cliente'', ''propiedad'', ''check_in'', ''check_out'', ''numero_huespedes'',
         ''correo_cliente''])
   \<and> ''propiedad_id'' \<notin> set (get_missing_fields cs j)
   \<and> (get_conversation cs (get_conversation_id rem asu) = None \<and>
        py_truthy v1 \<and> py_truthy v2 \<and> py_truthy v3 \<and> py_truthy v4 \<and> py_truthy v5 \<and> py_truthy v6 \<longrightarrow>
        (\<exists>cs1 cs2 cs3.
           create_or_update_conversation cs ts now rem asu = (get_conversation_id rem asu, cs1) \<and>
           get_missing_fields cs1 (get_conversation_id rem asu) =
             [''nombre_cliente'', ''propiedad'', ''check_in'', ''check_out'', ''numero_huespedes'',
              ''correo_cliente''] \<and>
           \<not> is_confirmed cs1 (get_conversation_id rem asu) \<and>
           update_fields cs1 now (get_conversation_id rem asu)
             [(''nombre_cliente'', v1), (''propiedad'', v2), (''check_in'', v3),
              (''check_out'', v4), (''numero_huespedes'', v5), (''correo_cliente'', v6)] = Inr cs2 \<and>
           get_missing_fields cs2 (get_conversation_id rem asu) = [] \<and>
           \<not> is_confirmed cs2 (get_conversation_id rem asu) \<and>
           update_conversation_field cs2 now (get_conversation_id rem asu) ''confirmacion'' sql_si
             = Inr cs3 \<and>
           is_confirmed cs3 (get_conversation_id rem asu)))
   \<and> (get_conversation cs j = None \<longrightarrow> \<not> is_confirmed cs j)
   \<and> (get_conversation cs j \<noteq> None \<and> (\<forall>(f, v) \<in> set ups. f \<in> set allowed_fields) \<longrightarrow>
        (\<exists>cs'. update_fields cs now j ups = Inr cs' \<and>
           is_confirmed cs' j =
             (case map_of (rev ups) ''confirmacion'' of
                None \<Rightarrow> is_confirmed cs j
              | Some v \<Rightarrow> v = SqlText [CHR ''s'', CHR 0xED])))
   \<and> (get_conversation cs (get_conversation_id rem asu) = None \<and>
        (\<forall>(f, v) \<in> set ups. f \<in> set allowed_fields) \<longrightarrow>
        (\<exists>cs'. update_fields (snd (create_or_update_conversation cs ts now rem asu)) now
                 (get_conversation_id rem asu) ups = Inr cs' \<and>
           is_confirmed cs' (get_conversation_id rem asu) =
             (map_of (rev ups) ''confirmacion'' = Some (SqlText [CHR ''s'', CHR 0xED]))))"
proof (intro conjI impI)
  show "get_missing_fields cs j =
        [''nombre_cliente'', ''propiedad'', ''check_in'', ''check_out'', ''numero_huespedes'',
         ''correo_cliente'']" if "get_conversation cs j = None"
    using get_missing_fields_None [OF that] by (simp add: required_fields_def)
  show "''propiedad_id'' \<notin> set (get_missing_fields cs j)"
    using get_missing_fields_subset [of cs j] by (auto simp: required_fields_def)
  show "\<not> is_confirmed cs j" if "get_conversation cs j = None"
    using that by (rule is_confirmed_None)
next
  assume h: "get_conversation cs j \<noteq> None \<and> (\<forall>(f, v) \<in> set ups. f \<in> set allowed_fields)"
  then have a: "\<forall>(f, v) \<in> set ups. f \<in> set allowed_fields"
    and g: "get_conversation cs j \<noteq> None" by simp_all
  from update_fields_confirmed [OF a g, of now]
  show "\<exists>cs'. update_fields cs now j ups = Inr cs' \<and>
           is_confirmed cs' j =
             (case map_of (rev ups) ''confirmacion'' of
                None \<Rightarrow> is_confirmed cs j
              | Some v \<Rightarrow> v = SqlText [CHR ''s'', CHR 0xED])"
    unfolding sql_si_def by blast
next
  let ?i = "get_conversation_id rem asu"
  let ?new = "new_conversation ?i asu rem ts"
  let ?cs1 = "cs @ [?new]"
  assume h: "get_conversation cs ?i = None \<and> (\<forall>(f, v) \<in> set ups. f \<in> set allowed_fields)"
  then have a: "\<forall>(f, v) \<in> set ups. f \<in> set allowed_fields"
    and n: "get_conversation cs ?i = None" by simp_all
  from get_conversation_created [OF n, of ts now]
  have cr: "snd (create_or_update_conversation cs ts now rem asu) = ?cs1"
    and g1: "get_conversation ?cs1 ?i = Some (row_dict ?new)" by simp_all
  have c1: "\<not> is_confirmed ?cs1 ?i"
    unfolding is_confirmed_def g1
    by (simp add: dict_get_def row_dict_def new_conversation_def)
  have g1': "get_conversation ?cs1 ?i \<noteq> None" using g1 by simp
  from update_fields_confirmed [OF a g1', of now]
  obtain cs' where u: "update_fields ?cs1 now ?i ups = Inr cs'"
    and c: "is_confirmed cs' ?i =
             (case map_of (rev ups) ''confirmacion'' of
                None \<Rightarrow> is_confirmed ?cs1 ?i
              | Some v \<Rightarrow> v = sql_si)" by blast
  have "is_confirmed cs' ?i = (map_of (rev ups) ''confirmacion'' = Some (SqlText [CHR ''s'', CHR 0xED]))"
    unfolding c using c1 by (simp add: sql_si_def split: option.splits)
  with u show "\<exists>cs'. update_fields (snd (create_or_update_conversation cs ts now rem asu)) now ?i ups
                  = Inr cs' \<and>
           is_confirmed cs' ?i = (map_of (rev ups) ''confirmacion'' = Some (SqlText [CHR ''s'', CHR 0xED]))"
    unfolding cr by blast
next
  let ?i = "get_conversation_id rem asu"
  let ?new = "new_conversation ?i asu rem ts"
  let ?cs1 = "cs @ [?new]"
  let ?ups = "[(''nombre_cliente'', v1), (''propiedad'', v2), (''check_in'', v3),
              (''check_out'', v4), (''numero_huespedes'', v5), (''correo_cliente'', v6)]"
  assume h: "get_conversation cs ?i = None \<and>
        py_truthy v1 \<and> py_truthy v2 \<and> py_truthy v3 \<and> py_truthy v4 \<and> py_truthy v5 \<and> py_truthy v6"
  from get_conversation_created [of cs rem asu ts now] h
  have cr: "create_or_update_conversation cs ts now rem asu = (?i, ?cs1)"
    and g1: "get_conversation ?cs1 ?i = Some (row_dict ?new)" by simp_all
  have m1: "get_missing_fields ?cs1 ?i =
             [''nombre_cliente'', ''propiedad'', ''check_in'', ''check_out'', ''numero_huespedes'',
              ''correo_cliente'']"
    unfolding get_missing_fields_Some [OF g1]
    by (simp add: required_fields_def dict_get_def row_dict_def new_conversation_def)
  have c1: "\<not> is_confirmed ?cs1 ?i"
    unfolding is_confirmed_def g1
    by (simp add: dict_get_def row_dict_def new_conversation_def)
  have ups: "\<forall>(f, v) \<in> set ?ups. f \<in> set allowed_fields \<and> (f \<in> set required_fields \<longrightarrow> py_truthy v)"
    using h by (simp add: allowed_fields_def)
  have g1': "get_conversation ?cs1 ?i \<noteq> None" using g1 by simp
  from update_fields_missing [OF ups g1', of now]
  obtain cs2 where u2: "update_fields ?cs1 now ?i ?ups = Inr cs2"
    and g2: "get_conversation cs2 ?i \<noteq> None"
    and sub: "set (get_missing_fields cs2 ?i) \<subseteq> set (get_missing_fields ?cs1 ?i) - fst ` set ?ups"
    and c2: "''confirmacion'' \<notin> fst ` set ?ups \<longrightarrow> is_confirmed cs2 ?i = is_confirmed ?cs1 ?i"
    by blast
  have m2: "get_missing_fields cs2 ?i = []"
    using sub unfolding m1 by simp
  have c2': "\<not> is_confirmed cs2 ?i"
    using c2 c1 by simp
  from g2 obtain d2 where g2': "get_conversation cs2 ?i = Some d2" by auto
  have a: "''confirmacion'' \<in> set allowed_fields" by (simp add: allowed_fields_def)
  from update_step [OF a g2', of now sql_si]
  obtain cs3 where u3: "update_conversation_field cs2 now ?i ''confirmacion'' sql_si = Inr cs3"
    and c3: "is_confirmed cs3 ?i" by auto
  from cr m1 c1 u2 m2 c2' u3 c3
  show "\<exists>cs1 cs2 cs3.
           create_or_update_conversation cs ts now rem asu = (?i, cs1) \<and>
           get_missing_fields cs1 ?i =
             [''nombre_cliente'', ''propiedad'', ''check_in'', ''check_out'', ''numero_huespedes'',
              ''correo_cliente''] \<and>
           \<not> is_confirmed cs1 ?i \<and>
           update_fields cs1 now ?i ?ups = Inr cs2 \<and>
           get_missing_fields cs2 ?i = [] \<and>
           \<not> is_confirmed cs2 ?i \<and>
           update_conversation_field cs2 now ?i ''confirmacion'' sql_si = Inr cs3 \<and>
           is_confirmed cs3 ?i"
    by blast
qed

theorem get_missing_fields_lifecycle_witness:
  "get_missing_fields
     (snd (create_or_update_conversation [] ''2024-10-01 10:00:00'' ''2024-10-01T10:00:00''
             ''juan@example.com'' ''Reserva Depa Isla Teja''))
     (get_conversation_id ''juan@example.com'' ''Reserva Depa Isla Teja'')
     = [''nombre_cliente'', ''propiedad'', ''check_in'', ''check_out'', ''numero_huespedes'',
        ''correo_cliente'']
   \<and> (case update_fields
            (snd (create_or_update_conversation [] ''2024-10-01 10:00:00'' ''2024-10-01T10:00:00''
                    ''juan@example.com'' ''Reserva Depa Isla Teja''))
            ''2024-10-01T10:00:00''
            (get_conversation_id ''juan@example.com'' ''Reserva Depa Isla Teja'')
            [(''nombre_cliente'', SqlText ''Juan Perez''), (''propiedad'', SqlText ''Depa Isla Teja''),
             (''check_in'', SqlText ''2024-10-15''), (''check_out'', SqlText ''2024-10-20''),
             (''numero_huespedes'', SqlInt 2), (''correo_cliente'', SqlText ''juan@ejemplo.com'')] of
         Inl e \<Rightarrow> False
       | Inr cs2 \<Rightarrow>
           get_missing_fields cs2
             (get_conversation_id ''juan@example.com'' ''Reserva Depa Isla Teja'') = []
           \<and> \<not> is_confirmed cs2
                 (get_conversation_id ''juan@example.com'' ''Reserva Depa Isla Teja''))
   \<and> \<not> is_confirmed [] ''72dcb0a41a6b''
   \<and> (case update_fields
            (snd (create_or_update_conversation [] ''2024-10-01 10:00:00'' ''2024-10-01T10:00:00''
                    ''juan@example.com'' ''Reserva Depa Isla Teja''))
            ''2024-10-01T10:00:00''
            (get_conversation_id ''juan@example.com'' ''Reserva Depa Isla Teja'')
            [(''confirmacion'', SqlText ''no''), (''estado'', SqlText ''confirmada'')] of
         Inl e \<Rightarrow> False
       | Inr cs' \<Rightarrow>
           \<not> is_confirmed cs' (get_conversation_id ''juan@example.com'' ''Reserva Depa Isla Teja''))
   \<and> (case update_fields [ejemplo_conversacion] ''2024-10-01T10:00:00'' ''72dcb0a41a6b''
            [(''confirmacion'', SqlText ''si''), (''confirmacion'', SqlText [CHR ''s'', CHR 0xED]),
             (''estado'', SqlText ''confirmada'')] of
         Inl e \<Rightarrow> False
       | Inr cs' \<Rightarrow> is_confirmed cs' ''72dcb0a41a6b'')"
proof -
  let ?i = "get_conversation_id ''juan@example.com'' ''Reserva Depa Isla Teja''"
  let ?cs1 = "snd (create_or_update_conversation [] ''2024-10-01 10:00:00'' ''2024-10-01T10:00:00''
             ''juan@example.com'' ''Reserva Depa Isla Teja'')"
  let ?ups = "[(''confirmacion'', SqlText ''no''), (''estado'', SqlText ''confirmada'')]"
  let ?ups' = "[(''confirmacion'', SqlText ''si''), (''confirmacion'', SqlText [CHR ''s'', CHR 0xED]),
             (''estado'', SqlText ''confirmada'')]"
  have h: "get_conversation [] ?i = None
     \<and> py_truthy (SqlText ''Juan Perez'') \<and> py_truthy (SqlText ''Depa Isla Teja'')
     \<and> py_truthy (SqlText ''2024-10-15'') \<and> py_truthy (SqlText ''2024-10-20'')
     \<and> py_truthy (SqlInt 2) \<and> py_truthy (SqlText ''juan@ejemplo.com'')"
    by (simp add: get_conversation_def)
  have n: "get_conversation [] ''72dcb0a41a6b'' = None"
    by (simp add: get_conversation_def)
  have a: "\<forall>(f, v) \<in> set ?ups. f \<in> set allowed_fields"
    by (simp add: allowed_fields_def)
  have a': "\<forall>(f, v) \<in> set ?ups'. f \<in> set allowed_fields"
    by (simp add: allowed_fields_def)
  have g: "get_conversation [ejemplo_conversacion] ''72dcb0a41a6b'' \<noteq> None"
    by (simp add: get_conversation_def ejemplo_conversacion_def new_conversation_def)
  have m: "map_of (rev ?ups) ''confirmacion'' = Some (SqlText ''no'')" by simp
  have m': "map_of (rev ?ups') ''confirmacion'' = Some (SqlText [CHR ''s'', CHR 0xED])" by simp
  from get_missing_fields_lifecycle
         [where cs = "[]" and j = "''72dcb0a41a6b''" and rem = "''juan@example.com''"
            and asu = "''Reserva Depa Isla Teja''"
            and ?v1.0 = "SqlText ''Juan Perez''" and ?v2.0 = "SqlText ''Depa Isla Teja''"
            and ?v3.0 = "SqlText ''2024-10-15''" and ?v4.0 = "SqlText ''2024-10-20''"
            and ?v5.0 = "SqlInt 2" and ?v6.0 = "SqlText ''juan@ejemplo.com''"
            and ts = "''2024-10-01 10:00:00''" and now = "''2024-10-01T10:00:00''"
            and ups = ?ups] h a n
  obtain cs1 cs2 cs' where
    "create_or_update_conversation [] ''2024-10-01 10:00:00'' ''2024-10-01T10:00:00''
       ''juan@example.com'' ''Reserva Depa Isla Teja'' = (?i, cs1)"
    "get_missing_fields cs1 ?i
       = [''nombre_cliente'', ''propiedad'', ''check_in'', ''check_out'', ''numero_huespedes'',
          ''correo_cliente'']"
    "update_fields cs1 ''2024-10-01T10:00:00'' ?i
       [(''nombre_cliente'', SqlText ''Juan Perez''), (''propiedad'', SqlText ''Depa Isla Teja''),
        (''check_in'', SqlText ''2024-10-15''), (''check_out'', SqlText ''2024-10-20''),
        (''numero_huespedes'', SqlInt 2), (''correo_cliente'', SqlText ''juan@ejemplo.com'')] = Inr cs2"
    "get_missing_fields cs2 ?i = []"
    "\<not> is_confirmed cs2 ?i"
    "\<not> is_confirmed [] ''72dcb0a41a6b''"
    "update_fields ?cs1 ''2024-10-01T10:00:00'' ?i ?ups = Inr cs'"
    "is_confirmed cs' ?i = (map_of (rev ?ups) ''confirmacion'' = Some (SqlText [CHR ''s'', CHR 0xED]))"
    by blast
  then have first: "get_missing_fields ?cs1 ?i
       = [''nombre_cliente'', ''propiedad'', ''check_in'', ''check_out'', ''numero_huespedes'',
          ''correo_cliente'']
    \<and> (case update_fields ?cs1 ''2024-10-01T10:00:00'' ?i
            [(''nombre_cliente'', SqlText ''Juan Perez''), (''propiedad'', SqlText ''Depa Isla Teja''),
             (''check_in'', SqlText ''2024-10-15''), (''check_out'', SqlText ''2024-10-20''),
             (''numero_huespedes'', SqlInt 2), (''correo_cliente'', SqlText ''juan@ejemplo.com'')] of
         Inl e \<Rightarrow> False
       | Inr cs2 \<Rightarrow> get_missing_fields cs2 ?i = [] \<and> \<not> is_confirmed cs2 ?i)
    \<and> \<not> is_confirmed [] ''72dcb0a41a6b''
    \<and> (case update_fields ?cs1 ''2024-10-01T10:00:00'' ?i ?ups of
         Inl e \<Rightarrow> False
       | Inr cs' \<Rightarrow> \<not> is_confirmed cs' ?i)"
    unfolding m by simp
  from get_missing_fields_lifecycle
         [where cs = "[ejemplo_conversacion]" and j = "''72dcb0a41a6b''"
            and rem = "''juan@example.com''" and asu = "''Reserva Depa Isla Teja''"
            and ?v1.0 = "SqlNull" and ?v2.0 = "SqlNull" and ?v3.0 = "SqlNull" and ?v4.0 = "SqlNull"
            and ?v5.0 = "SqlNull" and ?v6.0 = "SqlNull"
            and ts = "''2024-10-01 10:00:00''" and now = "''2024-10-01T10:00:00''"
            and ups = ?ups'] g a'
  obtain cs'' where
    "update_fields [ejemplo_conversacion] ''2024-10-01T10:00:00'' ''72dcb0a41a6b'' ?ups' = Inr cs''"
    "is_confirmed cs'' ''72dcb0a41a6b'' =
       (case map_of (rev ?ups') ''confirmacion'' of
          None \<Rightarrow> is_confirmed [ejemplo_conversacion] ''72dcb0a41a6b''
        | Some v \<Rightarrow> v = SqlText [CHR ''s'', CHR 0xED])"
    by blast
  then have second: "(case update_fields [ejemplo_conversacion] ''2024-10-01T10:00:00''
            ''72dcb0a41a6b'' ?ups' of
         Inl e \<Rightarrow> False
       | Inr cs' \<Rightarrow> is_confirmed cs' ''72dcb0a41a6b'')"
    unfolding m' by simp
  from first second show ?thesis by simp
qed

text \<open>
  C6. \<open>update_conversation_field\<close> returns the error \<open>ValueError\<close> to its caller for
  every field name outside the whitelist \<open>nombre_cliente\<close>, \<open>propiedad\<close>, \<open>propiedad_id\<close>,
  \<open>check_in\<close>, \<open>check_out\<close>, \<open>numero_huespedes\<close>, \<open>correo_cliente\<close>, \<open>telefono_cliente\<close>,
  \<open>confirmacion\<close>, \<open>estado\<close>; for a name of the whitelist it returns no error and, in
  every row with the given id, sets that column to the value and \<open>updated_at\<close> to the
  current time, leaving the other columns and the other rows as they were.
\<close>

theorem update_conversation_field_whitelist:
  "(field \<notin> {''nombre_cliente'', ''propiedad'', ''propiedad_id'', ''check_in'', ''check_out'',
               ''numero_huespedes'', ''correo_cliente'', ''telefono_cliente'', ''confirmacion'',
               ''estado''} \<longrightarrow>
      update_conversation_field cs now i field v
        = Inl (ValueError (''Campo no v'' @ [CHR 0xE1] @ ''lido: '' @ field)))
   \<and> (field \<in> {''nombre_cliente'', ''propiedad'', ''propiedad_id'', ''check_in'', ''check_out'',
               ''numero_huespedes'', ''correo_cliente'', ''telefono_cliente'', ''confirmacion'',
               ''estado''} \<longrightarrow>
      (\<exists>cs'. update_conversation_field cs now i field v = Inr cs' \<and>
             length cs' = length cs \<and>
             (\<forall>k < length cs.
                (c_id (cs ! k) \<noteq> i \<longrightarrow> cs' ! k = cs ! k) \<and>
                (c_id (cs ! k) = i \<longrightarrow>
                   (\<forall>col. row_dict (cs' ! k) col =
                      (if col = field then Some v
                       else if col = ''updated_at'' then Some (SqlText now)
                       else row_dict (cs ! k) col))))))"
proof -
  have s: "{''nombre_cliente'', ''propiedad'', ''propiedad_id'', ''check_in'', ''check_out'',
            ''numero_huespedes'', ''correo_cliente'', ''telefono_cliente'', ''confirmacion'',
            ''estado''} = set allowed_fields"
    unfolding allowed_fields_def list.set by (rule refl)
  show ?thesis
    unfolding s
  proof (intro conjI impI)
    assume "field \<notin> set allowed_fields"
    then show "update_conversation_field cs now i field v
        = Inl (ValueError (''Campo no v'' @ [CHR 0xE1] @ ''lido: '' @ field))"
      by (simp add: update_conversation_field_def)
  next
    assume a: "field \<in> set allowed_fields"
    let ?upd = "\<lambda>c. if c_id c = i then (set_column field v c)\<lparr>c_updated_at := now\<rparr> else c"
    have u: "update_conversation_field cs now i field v = Inr (map ?upd cs)"
      using a by (simp add: update_conversation_field_def)
    have "\<forall>k < length cs.
            (c_id (cs ! k) \<noteq> i \<longrightarrow> map ?upd cs ! k = cs ! k) \<and>
            (c_id (cs ! k) = i \<longrightarrow>
               (\<forall>col. row_dict (map ?upd cs ! k) col =
                  (if col = field then Some v
                   else if col = ''updated_at'' then Some (SqlText now)
                   else row_dict (cs ! k) col)))"
      by (simp add: row_dict_set_column [OF a])
    with u show "\<exists>cs'. update_conversation_field cs now i field v = Inr cs' \<and>
             length cs' = length cs \<and>
             (\<forall>k < length cs.
                (c_id (cs ! k) \<noteq> i \<longrightarrow> cs' ! k = cs ! k) \<and>
                (c_id (cs ! k) = i \<longrightarrow>
                   (\<forall>col. row_dict (cs' ! k) col =
                      (if col = field then Some v
                       else if col = ''updated_at'' then Some (SqlText now)
                       else row_dict (cs ! k) col))))"
      by (intro exI [of _ "map ?upd cs"]) simp
  qed
qed

theorem update_conversation_field_whitelist_witness:
  "update_conversation_field [ejemplo_conversacion] ''2024-10-02T09:00:00'' ''72dcb0a41a6b''
     ''telefono'' (SqlText ''+56 9 1234 5678'')
     = Inl (ValueError (''Campo no v'' @ [CHR 0xE1] @ ''lido: telefono''))
   \<and> update_conversation_field [ejemplo_conversacion] ''2024-10-02T09:00:00'' ''72dcb0a41a6b''
     ''telefono_cliente'' (SqlText ''+56 9 1234 5678'')
     = Inr [ejemplo_conversacion\<lparr>c_telefono_cliente := SqlText ''+56 9 1234 5678'',
                                  c_updated_at := ''2024-10-02T09:00:00''\<rparr>]"
  using update_conversation_field_whitelist
          [of "''telefono''" "[ejemplo_conversacion]" "''2024-10-02T09:00:00''" "''72dcb0a41a6b''"
              "SqlText ''+56 9 1234 5678''"]
        update_conversation_field_whitelist
          [of "''telefono_cliente''" "[ejemplo_conversacion]" "''2024-10-02T09:00:00''"
              "''72dcb0a41a6b''" "SqlText ''+56 9 1234 5678''"]
  by (simp add: update_conversation_field_def allowed_fields_def set_column_def
        ejemplo_conversacion_def new_conversation_def)

text \<open>
  C9. \<open>get_missing_fields\<close> tests the six fields for falsiness: for a conversation that
  exists, a field is in the result exactly when its stored value is \<open>NULL\<close>, \<open>0\<close> or the
  empty text; so setting one of the six fields to such a value with
  \<open>update_conversation_field\<close> leaves the field in the result.
\<close>

theorem get_missing_fields_falsy:
  "(get_conversation cs i = Some d \<longrightarrow>
      (\<forall>f \<in> {''nombre_cliente'', ''propiedad'', ''check_in'', ''check_out'',
               ''numero_huespedes'', ''correo_cliente''}.
         f \<in> set (get_missing_fields cs i) \<longleftrightarrow> dict_get d f \<in> {SqlNull, SqlInt 0, SqlText []}))
   \<and> (get_conversation cs i \<noteq> None \<and>
        f \<in> {''nombre_cliente'', ''propiedad'', ''check_in'', ''check_out'',
              ''numero_huespedes'', ''correo_cliente''} \<and>
        v \<in> {SqlNull, SqlInt 0, SqlText []} \<longrightarrow>
        (\<exists>cs'. update_conversation_field cs now i f v = Inr cs' \<and>
               f \<in> set (get_missing_fields cs' i)))"
proof -
  have s: "{''nombre_cliente'', ''propiedad'', ''check_in'', ''check_out'',
            ''numero_huespedes'', ''correo_cliente''} = set required_fields"
    unfolding required_fields_def list.set by (rule refl)
  show ?thesis
    unfolding s
  proof (intro conjI impI ballI)
    fix f assume g: "get_conversation cs i = Some d" and f: "f \<in> set required_fields"
    show "f \<in> set (get_missing_fields cs i) \<longleftrightarrow> dict_get d f \<in> {SqlNull, SqlInt 0, SqlText []}"
      unfolding get_missing_fields_Some [OF g] falsy_iff [symmetric] using f by simp
  next
    assume h: "get_conversation cs i \<noteq> None \<and> f \<in> set required_fields \<and>
               v \<in> {SqlNull, SqlInt 0, SqlText []}"
    then obtain d where g: "get_conversation cs i = Some d" by auto
    from h have a: "f \<in> set allowed_fields" by (simp add: required_subset_allowed)
    from h have nv: "\<not> py_truthy v" by (simp add: falsy_iff)
    from update_step [OF a g, of now v]
    obtain cs' where u: "update_conversation_field cs now i f v = Inr cs'"
      and m: "get_missing_fields cs' i =
             filter (\<lambda>x. \<not> py_truthy (if x = f then v else dict_get d x)) required_fields"
      by blast
    have "f \<in> set (get_missing_fields cs' i)"
      unfolding m using h nv by simp
    with u show "\<exists>cs'. update_conversation_field cs now i f v = Inr cs' \<and>
               f \<in> set (get_missing_fields cs' i)" by blast
  qed
qed

theorem get_missing_fields_falsy_witness:
  "get_missing_fields [ejemplo_conversacion_completa] ''72dcb0a41a6b'' = []
   \<and> (case update_conversation_field [ejemplo_conversacion_completa] ''2024-10-02T09:00:00''
             ''72dcb0a41a6b'' ''numero_huespedes'' (SqlInt 0) of
         Inl e \<Rightarrow> False
       | Inr cs' \<Rightarrow> get_missing_fields cs' ''72dcb0a41a6b'' = [''numero_huespedes''])
   \<and> (case update_conversation_field [ejemplo_conversacion_completa] ''2024-10-02T09:00:00''
             ''72dcb0a41a6b'' ''propiedad'' (SqlText []) of
         Inl e \<Rightarrow> False
       | Inr cs' \<Rightarrow> get_missing_fields cs' ''72dcb0a41a6b'' = [''propiedad''])"
proof -
  have g: "get_conversation [ejemplo_conversacion_completa] ''72dcb0a41a6b'' \<noteq> None"
    by (simp add: get_conversation_def ejemplo_conversacion_completa_def ejemplo_conversacion_def
          new_conversation_def)
  have m: "get_missing_fields [ejemplo_conversacion_completa] ''72dcb0a41a6b'' = []"
    by (simp add: get_missing_fields_def get_conversation_def dict_get_def row_dict_def
          ejemplo_conversacion_completa_def ejemplo_conversacion_def new_conversation_def)
  have a: "get_missing_fields
             [(ejemplo_conversacion_completa\<lparr>c_numero_huespedes := SqlInt 0,
                 c_updated_at := ''2024-10-02T09:00:00''\<rparr>)] ''72dcb0a41a6b'' = [''numero_huespedes'']"
    by (simp add: get_missing_fields_def get_conversation_def dict_get_def row_dict_def
          ejemplo_conversacion_completa_def ejemplo_conversacion_def new_conversation_def)
  have b: "get_missing_fields
             [(ejemplo_conversacion_completa\<lparr>c_propiedad := SqlText [],
                 c_updated_at := ''2024-10-02T09:00:00''\<rparr>)] ''72dcb0a41a6b'' = [''propiedad'']"
    by (simp add: get_missing_fields_def get_conversation_def dict_get_def row_dict_def
          ejemplo_conversacion_completa_def ejemplo_conversacion_def new_conversation_def)
  have i: "c_id ejemplo_conversacion_completa = ''72dcb0a41a6b''"
    by (simp add: ejemplo_conversacion_completa_def ejemplo_conversacion_def new_conversation_def)
  from get_missing_fields_falsy
         [of "[ejemplo_conversacion_completa]" "''72dcb0a41a6b''" _ "''numero_huespedes''"
             "SqlInt 0" "''2024-10-02T09:00:00''"]
       get_missing_fields_falsy
         [of "[ejemplo_conversacion_completa]" "''72dcb0a41a6b''" _ "''propiedad''"
             "SqlText []" "''2024-10-02T09:00:00''"] g m a b i
  show ?thesis
    by (simp add: update_conversation_field_def allowed_fields_def set_column_def)
qed

section \<open>Confirmation detection\<close>





subsection \<open>What the cache holds\<close>














lemma engine_calls_example:
  "engine_calls OptimizedNLPEngine_init
     [Detect_confirmation ''Hola, tengo una consulta'',
      Cached_method Capacity ''Hola, tengo una consulta'' PyNone,
      Detect_confirmation ''Vale, gracias'']
   = [(get_cache_key ''Hola, tengo una consulta'' ''confirmation'', PyBool False),
      (get_cache_key ''Hola, tengo una consulta'' ''capacity'', PyNone),
      (get_cache_key ''Vale, gracias'' ''confirmation'', PyBool True)]"
  by code_simp

section \<open>Object pools\<close>

lemma deque_append_bounded:
  "int (length xs) \<le> m \<Longrightarrow> int (length (deque_append m xs x)) \<le> m"
  by (auto simp: deque_append_def)

lemma pool_get_bounded:
  assumes "pool_bounded P" and "pool_get cls factory P heap = (r, P', heap')"
  shows "pool_bounded P' \<and> max_size P' = max_size P"
  using assms
  by (auto simp: pool_get_def pool_bounded_def Let_def split: if_splits)

lemma return_object_bounded:
  assumes "pool_bounded P" and "return_object cls P heap obj = (r, P', heap')"
  shows "pool_bounded P' \<and> max_size P' = max_size P"
  using assms deque_append_bounded [of "pool P" "max_size P" obj]
  by (auto simp: return_object_def pool_bounded_def Let_def split: if_splits)

lemma pool_calls_bounded:
  assumes "pool_bounded P" and "pool_calls cls factory P heap calls = (P', heap')"
  shows "pool_bounded P' \<and> max_size P' = max_size P"
  using assms
proof (induction calls arbitrary: P heap)
  case Nil
  then show ?case by simp
next
  case (Cons c calls)
  show ?case
  proof (cases c)
    case Get
    obtain r P1 h1 where g: "pool_get cls factory P heap = (r, P1, h1)"
      by (cases "pool_get cls factory P heap") auto
    from pool_get_bounded [OF Cons.prems(1) g] have b: "pool_bounded P1" "max_size P1 = max_size P"
      by simp_all
    from Cons.prems(2) Get g have "pool_calls cls factory P1 h1 calls = (P', heap')" by simp
    from Cons.IH [OF b(1) this] b(2) show ?thesis by simp
  next
    case (Return obj)
    obtain r P1 h1 where g: "return_object cls P heap obj = (r, P1, h1)"
      by (cases "return_object cls P heap obj") auto
    from return_object_bounded [OF Cons.prems(1) g] have b: "pool_bounded P1" "max_size P1 = max_size P"
      by simp_all
    from Cons.prems(2) Return g have "pool_calls cls factory P1 h1 calls = (P', heap')" by simp
    from Cons.IH [OF b(1) this] b(2) show ?thesis by simp
  qed
qed

lemma return_object_heap:
  "snd (snd (return_object cls P heap obj)) =
     (if int (length (pool P)) < max_size P \<and> has_reset cls (heap ! obj)
      then heap[obj := call_reset cls (heap ! obj)] else heap)"
  by (simp add: return_object_def Let_def)

lemma return_object_pool:
  "pool (fst (snd (return_object cls P heap obj))) =
     (if int (length (pool P)) < max_size P then pool P @ [obj] else pool P)"
  by (auto simp: return_object_def Let_def deque_append_def)

lemma return_to_pool_list:
  assumes "obj < length heap" and "heap ! obj = PyListObj xs"
  shows "snd (snd (return_to_pool G heap obj)) = heap[obj := PyListObj []]
         \<and> pool (list_pool (fst (snd (return_to_pool G heap obj)))) =
             (if int (length (pool (list_pool G))) < max_size (list_pool G)
              then pool (list_pool G) @ [obj] else pool (list_pool G))"
proof -
  let ?h = "heap[obj := PyListObj []]"
  obtain r P' h' where ro: "return_object builtin_class (list_pool G) ?h obj = (r, P', h')"
    by (cases "return_object builtin_class (list_pool G) ?h obj") auto
  have h': "h' = ?h"
    using return_object_heap [of builtin_class "list_pool G" ?h obj] ro
    by (simp add: builtin_class_def)
  have p': "pool P' = (if int (length (pool (list_pool G))) < max_size (list_pool G)
              then pool (list_pool G) @ [obj] else pool (list_pool G))"
    using return_object_pool [of builtin_class "list_pool G" ?h obj] ro by simp
  show ?thesis
    using assms ro h' p' by (simp add: return_to_pool_def)
qed

lemma return_to_pool_dict:
  assumes "obj < length heap" and "heap ! obj = PyDictObj kvs"
  shows "snd (snd (return_to_pool G heap obj)) = heap[obj := PyDictObj []]"
proof -
  let ?h = "heap[obj := PyDictObj []]"
  obtain r P' h' where ro: "return_object builtin_class (dict_pool G) ?h obj = (r, P', h')"
    by (cases "return_object builtin_class (dict_pool G) ?h obj") auto
  have h': "h' = ?h"
    using return_object_heap [of builtin_class "dict_pool G" ?h obj] ro
    by (simp add: builtin_class_def)
  show ?thesis
    using assms ro h' by (simp add: return_to_pool_def)
qed

text \<open>
  C7, as the claim states it, fails: \<open>return_object\<close> of the list pool does not clear a
  list. Returning a list with one element to the empty list pool puts the reference into
  the pool and leaves the list with its element.
\<close>

theorem return_object_keeps_list:
  "pool (fst (snd (return_object builtin_class (list_pool initial_pools) [PyListObj [PyInt 1]] 0)))
     = [0]
   \<and> list_length
        (snd (snd (return_object builtin_class (list_pool initial_pools) [PyListObj [PyInt 1]] 0)))
        0 = Some 1"
  by (simp add: return_object_pool return_object_heap initial_pools_def builtin_class_def
        list_length_def)

text \<open>
  C7, amended. Through every sequence of \<open>get\<close> and \<open>return_object\<close> calls a pool that
  holds at most \<open>max_size\<close> references keeps holding at most \<open>max_size\<close> (at most 20 for
  the list pool). \<open>return_object\<close> calls the \<open>reset\<close> method of an object that defines
  one, when the pool is under capacity, and changes no object otherwise: it does not
  clear lists or dictionaries. \<open>return_to_pool\<close> clears a list or a dictionary before it
  calls \<open>return_object\<close>, so a list returned through \<open>return_to_pool\<close> has length 0 when
  its reference enters the pool.
\<close>

theorem object_pool_bound_and_reset:
  "(pool_bounded P \<longrightarrow>
      int (length (pool (fst (pool_calls cls factory P heap calls)))) \<le> max_size P
      \<and> max_size (fst (pool_calls cls factory P heap calls)) = max_size P)
   \<and> length (pool (fst (pool_calls builtin_class (PyListObj []) (list_pool initial_pools) heap0 calls0)))
        \<le> 20
   \<and> snd (snd (return_object cls P heap obj)) =
        (if int (length (pool P)) < max_size P \<and> has_reset cls (heap ! obj)
         then heap[obj := call_reset cls (heap ! obj)] else heap)
   \<and> (obj < length heap1 \<and> heap1 ! obj = PyListObj xs \<longrightarrow>
        list_length (snd (snd (return_to_pool G heap1 obj))) obj = Some 0
        \<and> snd (snd (return_to_pool G heap1 obj)) = heap1[obj := PyListObj []]
        \<and> pool (list_pool (fst (snd (return_to_pool G heap1 obj)))) =
             (if int (length (pool (list_pool G))) < max_size (list_pool G)
              then pool (list_pool G) @ [obj] else pool (list_pool G)))
   \<and> (obj < length heap1 \<and> heap1 ! obj = PyDictObj kvs \<longrightarrow>
        snd (snd (return_to_pool G heap1 obj)) = heap1[obj := PyDictObj []])"
proof (intro conjI impI)
  assume b: "pool_bounded P"
  obtain P' h' where c: "pool_calls cls factory P heap calls = (P', h')"
    by (cases "pool_calls cls factory P heap calls") auto
  from pool_calls_bounded [OF b c] c
  show "int (length (pool (fst (pool_calls cls factory P heap calls)))) \<le> max_size P"
    and "max_size (fst (pool_calls cls factory P heap calls)) = max_size P"
    by (simp_all add: pool_bounded_def)
next
  have b: "pool_bounded (list_pool initial_pools)"
    by (simp add: pool_bounded_def initial_pools_def)
  obtain P' h' where c: "pool_calls builtin_class (PyListObj []) (list_pool initial_pools) heap0 calls0
      = (P', h')"
    by (cases "pool_calls builtin_class (PyListObj []) (list_pool initial_pools) heap0 calls0") auto
  from pool_calls_bounded [OF b c] c
  show "length (pool (fst (pool_calls builtin_class (PyListObj []) (list_pool initial_pools)
          heap0 calls0))) \<le> 20"
    by (simp add: pool_bounded_def initial_pools_def)
next
  show "snd (snd (return_object cls P heap obj)) =
        (if int (length (pool P)) < max_size P \<and> has_reset cls (heap ! obj)
         then heap[obj := call_reset cls (heap ! obj)] else heap)"
    by (rule return_object_heap)
next
  assume h: "obj < length heap1 \<and> heap1 ! obj = PyListObj xs"
  then have o: "obj < length heap1" and l: "heap1 ! obj = PyListObj xs" by simp_all
  from return_to_pool_list [OF o l, of G]
  show "snd (snd (return_to_pool G heap1 obj)) = heap1[obj := PyListObj []]"
    and "pool (list_pool (fst (snd (return_to_pool G heap1 obj)))) =
             (if int (length (pool (list_pool G))) < max_size (list_pool G)
              then pool (list_pool G) @ [obj] else pool (list_pool G))"
    by simp_all
  from return_to_pool_list [OF o l, of G] o
  show "list_length (snd (snd (return_to_pool G heap1 obj))) obj = Some 0"
    by (simp add: list_length_def)
next
  assume h: "obj < length heap1 \<and> heap1 ! obj = PyDictObj kvs"
  then show "snd (snd (return_to_pool G heap1 obj)) = heap1[obj := PyDictObj []]"
    using return_to_pool_dict [of obj heap1 kvs G] by simp
qed

lemma pool_calls_example:
  "length (pool (fst (pool_calls builtin_class (PyListObj []) (list_pool initial_pools) []
     (replicate 25 Get @ map Return [0..<25])))) = 20"
  by code_simp

theorem object_pool_bound_and_reset_witness:
  "length (pool (fst (pool_calls builtin_class (PyListObj []) (list_pool initial_pools) []
     (replicate 25 Get @ map Return [0..<25])))) = 20
   \<and> list_length (snd (snd (return_to_pool initial_pools [PyListObj [PyInt 1, PyInt 2]] 0))) 0
       = Some 0
   \<and> pool (list_pool (fst (snd (return_to_pool initial_pools [PyListObj [PyInt 1, PyInt 2]] 0))))
       = [0]"
proof -
  have b: "pool_bounded (list_pool initial_pools)"
    by (simp add: pool_bounded_def initial_pools_def)
  have m: "int (length (pool (list_pool initial_pools))) < max_size (list_pool initial_pools)"
    "pool (list_pool initial_pools) = []"
    by (simp_all add: initial_pools_def)
  have h: "0 < length [PyListObj [PyInt 1, PyInt 2]]
           \<and> [PyListObj [PyInt 1, PyInt 2]] ! 0 = PyListObj [PyInt 1, PyInt 2]"
    by simp
  from object_pool_bound_and_reset
         [where P = "list_pool initial_pools" and cls = builtin_class
            and factory = "PyListObj []" and heap = "[]"
            and calls = "replicate 25 Get @ map Return [0..<25]"
            and obj = 0 and ?heap1.0 = "[PyListObj [PyInt 1, PyInt 2]]"
            and xs = "[PyInt 1, PyInt 2]" and G = initial_pools
            and ?heap0.0 = "[]" and ?calls0.0 = "[]" and kvs = "[]"]
       b h pool_calls_example m
  show ?thesis
    by (simp add: list_length_def)
qed

section \<open>Date extraction\<close>

lemma entre_lower: "py_lower ''entre el 5 y 8 de julio'' = ''entre el 5 y 8 de julio''"
  by code_simp

lemma entre_pattern1: "re_finditer False pattern1 ''entre el 5 y 8 de julio'' = []"
  by code_simp

lemma entre_pattern2: "re_finditer False pattern2 ''entre el 5 y 8 de julio'' = []"
  by code_simp

lemma entre_pattern3: "re_finditer False pattern3 ''entre el 5 y 8 de julio'' = []"
  by code_simp

lemma entre_standard: "re_finditer False standard_pattern ''entre el 5 y 8 de julio'' = []"
  by code_simp

text \<open>
  The pattern of \<open>_build_date_patterns\<close> for this phrasing does match the text, with the
  groups \<open>5\<close>, \<open>8\<close> and \<open>julio\<close>; and the phrasing \<open>del 5 al 8 de julio\<close>, which
  \<open>extract_dates\<close> does look for, gives the two dates.
\<close>

lemma entre_pattern_matches:
  "re_finditer False entre_pattern ''entre el 5 y 8 de julio''
     = [(''entre el 5 y 8 de julio'', [(3, ''julio''), (2, ''8''), (1, ''5'')])]"
  by code_simp

lemma extract_dates_del_al:
  "extract_dates (2024, 6) ''del 5 al 8 de julio'' = [''2024-07-05'', ''2024-07-08'']
   \<and> extract_dates (2024, 11) ''del 5 al 8 de julio'' = [''2025-07-05'', ''2025-07-08'']"
  by code_simp

text \<open>
  C5. For the text \<open>entre el 5 y 8 de julio\<close>, at every reading of the clock,
  \<open>NLPEngine.extract_dates\<close> returns the empty list, not the two dates of the 5th and the
  8th of July: none of the four patterns it searches for is found in the text.
\<close>

theorem extract_dates_entre:
  "extract_dates now ''entre el 5 y 8 de julio'' = []"
  by (simp add: extract_dates_def Let_def entre_lower entre_pattern1 entre_pattern2
        entre_pattern3 entre_standard)

end
